theory Spec2Isabelle
  imports Main
begin

section \<open>Data model\<close>

text \<open>
  The workflow of \<^verbatim>\<open>insta_automation_langgraph.py\<close>: rows are read from a sheet, and for
  each row a caption is generated, the image is published to Instagram and Facebook, and
  the row is cleared. Python integers are \<open>int\<close>, strings are \<open>string\<close>, \<open>Optional[str]\<close>
  is \<open>string option\<close>.
\<close>

text \<open>The dicts built by \<^verbatim>\<open>filter_rows\<close>: keys \<^verbatim>\<open>row_number\<close>, \<^verbatim>\<open>prompt\<close>, \<^verbatim>\<open>image_url\<close>.\<close>

record row =
  row_number :: int
  prompt :: string
  image_url :: string

text \<open>\<^verbatim>\<open>class WorkflowState(TypedDict)\<close>.\<close>

record workflow_state =
  rows :: "row list"
  current_row_index :: int
  caption :: "string option"
  post_id :: "string option"
  facebook_post_id :: "string option"
  error :: "string option"

text \<open>
  Python's truth value of an \<open>Optional[str]\<close>, as in \<^verbatim>\<open>if state["error"]:\<close> and
  \<^verbatim>\<open>if post_id:\<close>: \<^verbatim>\<open>None\<close> and the empty string are false.
\<close>

definition truthy :: "string option \<Rightarrow> bool" where
  "truthy v = (case v of None \<Rightarrow> False | Some s \<Rightarrow> s \<noteq> [])"

text \<open>
  Python's \<^verbatim>\<open>xs[i]\<close>: a negative index counts from the end; \<open>None\<close> stands for
  \<^verbatim>\<open>IndexError\<close>.
\<close>

definition py_index :: "'a list \<Rightarrow> int \<Rightarrow> 'a option" where
  "py_index xs i =
     (let n = int (length xs); j = (if i < 0 then n + i else i)
      in if 0 \<le> j \<and> j < n then Some (xs ! nat j) else None)"

definition index_error :: string where
  "index_error = ''list index out of range''"

text \<open>
  \<^verbatim>\<open>str.strip()\<close> on the ASCII white space of \<^verbatim>\<open>str.isspace\<close> (tab, line feed, vertical
  tab, form feed, carriage return, the separators 0x1C to 0x1F and the space); a \<open>char\<close>
  is a byte, white space outside ASCII is not modelled.
\<close>

definition is_space :: "char \<Rightarrow> bool" where
  "is_space c = (c \<in> set [CHR 0x09, CHR 0x0A, CHR 0x0B, CHR 0x0C, CHR 0x0D,
                           CHR 0x1C, CHR 0x1D, CHR 0x1E, CHR 0x1F, CHR 0x20])"

definition strip :: "string \<Rightarrow> string" where
  "strip s = rev (dropWhile is_space (rev (dropWhile is_space s)))"

section \<open>The outside world\<close>

text \<open>
  What the program does to the outside world, in the order it does it: the network calls
  (the clear call with the sheet row it clears), the sleeps of the retry loops with their
  length in seconds, and the messages of \<^verbatim>\<open>logger.error\<close>. Calls of \<^verbatim>\<open>logger.info\<close> and
  \<^verbatim>\<open>logger.warning\<close> are not modelled.
\<close>

datatype event =
    SheetsGet
  | SheetsClear int
  | Gemini
  | IgMedia
  | IgPublish
  | FbPhotos
  | Sleep nat
  | LogError string

text \<open>
  The outcome of \<^verbatim>\<open>get_sheets_service()\<close>, of one \<^verbatim>\<open>.execute()\<close> of a Sheets request
  (\<^verbatim>\<open>HttpError\<close> with \<^verbatim>\<open>e.resp.status\<close> and \<^verbatim>\<open>str(e)\<close>, or any other exception with its
  \<^verbatim>\<open>str(e)\<close>), and of building and invoking the Gemini client (\<^verbatim>\<open>response.content\<close>, or
  the \<^verbatim>\<open>str(e)\<close> of the exception raised on the way).
\<close>

datatype service_outcome = ServiceReady | ServiceRaises string

datatype 'a sheets_outcome = Executed 'a | HttpError int string | ExecuteRaises string

datatype llm_outcome = LlmContent string | LlmRaises string

text \<open>
  An HTTP response of \<^verbatim>\<open>requests.post\<close>, as far as the program reads it:
  \<^verbatim>\<open>status_code\<close>, \<^verbatim>\<open>text\<close>, the \<^verbatim>\<open>str(e)\<close> of the \<^verbatim>\<open>HTTPError\<close> that
  \<^verbatim>\<open>raise_for_status()\<close> builds for it, and what \<^verbatim>\<open>.json()\<close> gives: an exception, a
  value that is no dict (so that \<^verbatim>\<open>.get\<close> raises \<^verbatim>\<open>AttributeError\<close>), or a dict. Of a dict
  the program reads the key \<^verbatim>\<open>id\<close> (a string when present, as the Graph API sends it) and
  the key \<^verbatim>\<open>error\<close>: absent, no dict, or a dict with the integers under \<^verbatim>\<open>code\<close> and
  \<^verbatim>\<open>error_subcode\<close> (\<open>None\<close> when the key is absent or its value equals no integer);
  \<open>dict_repr\<close> is the \<^verbatim>\<open>str()\<close> of the dict.
\<close>

datatype error_field = ErrorAbsent | ErrorNotDict string | ErrorDict "int option" "int option"

record json_dict =
  id_field :: "string option"
  error_field :: error_field
  dict_repr :: string

datatype json_body = JsonRaises string | JsonNotDict string | JsonDict json_dict

record http_response =
  status_code :: int
  body_text :: string
  http_error_msg :: string
  json :: json_body

datatype http_outcome = PostRaises string | Responds http_response

text \<open>
  The answers of the outside world during one run. A retried call is answered per attempt
  (the \<^verbatim>\<open>attempt\<close> of \<^verbatim>\<open>for attempt in range(max_retries)\<close>); a call made while a row is
  processed is answered per \<^verbatim>\<open>current_row_index\<close>.
\<close>

record env =
  fetch_service :: service_outcome
  sheets_get :: "nat \<Rightarrow> string list list option sheets_outcome"
  gemini :: "int \<Rightarrow> llm_outcome"
  ig_media :: "int \<Rightarrow> http_outcome"
  ig_publish :: "int \<Rightarrow> nat \<Rightarrow> http_outcome"
  fb_photos :: "int \<Rightarrow> http_outcome"
  clear_service :: "int \<Rightarrow> service_outcome"
  sheets_clear :: "int \<Rightarrow> nat \<Rightarrow> unit sheets_outcome"

type_synonym config = "event list \<times> workflow_state"

section \<open>Sheets client and retry loop\<close>

text \<open>\<^verbatim>\<open>get_sheets_service\<close>: logs the failure and raises it again.\<close>

definition get_sheets_service :: "service_outcome \<Rightarrow> event list \<Rightarrow> event list \<times> (string + unit)" where
  "get_sheets_service out w =
     (case out of
        ServiceReady \<Rightarrow> (w, Inr ())
      | ServiceRaises msg \<Rightarrow>
          (w @ [LogError (''Failed to initialize Google Sheets API client: '' @ msg)], Inl msg))"

definition max_retries :: nat where
  "max_retries = 5"

text \<open>
  \<^verbatim>\<open>raise_for_status()\<close> of \<^verbatim>\<open>requests\<close> raises for the status codes 400 to 599 only.
\<close>

definition raises_for_status :: "http_response \<Rightarrow> bool" where
  "raises_for_status r = (400 \<le> status_code r \<and> status_code r < 600)"

text \<open>
  The loop \<^verbatim>\<open>for attempt in range(max_retries): try: ....execute(); break except HttpError
  ... else: raise Exception(...)\<close>, written twice in the source with the same text (lines
  80 to 97 of \<^verbatim>\<open>filter_rows\<close>, 298 to 313 of \<^verbatim>\<open>clear_row\<close>). The list is the rest of
  \<^verbatim>\<open>range(max_retries)\<close>, \<open>call\<close> the event of the request; \<open>Inl\<close> is the \<^verbatim>\<open>str(e)\<close> of
  the exception that leaves the loop. The sleep of a retryable failure comes before the
  loop looks for the next attempt, so it also follows the last attempt.
\<close>

fun sheets_retry ::
  "(nat \<Rightarrow> 'a sheets_outcome) \<Rightarrow> event \<Rightarrow> nat list \<Rightarrow> event list \<Rightarrow> event list \<times> (string + 'a)" where
  "sheets_retry execute call [] w =
     (w, Inl ''Max retries exceeded for Google Sheets API call'')"
| "sheets_retry execute call (attempt # rest) w =
     (case execute attempt of
        Executed result \<Rightarrow> (w @ [call], Inr result)
      | HttpError status msg \<Rightarrow>
          if status \<in> set [429, 500, 503]
          then sheets_retry execute call rest (w @ [call, Sleep (2 ^ attempt)])
          else (w @ [call], Inl msg)
      | ExecuteRaises msg \<Rightarrow> (w @ [call], Inl msg))"

section \<open>Node 1: filter\_rows\<close>

text \<open>
  The list comprehension of \<^verbatim>\<open>filter_rows\<close> over \<^verbatim>\<open>enumerate(values[1:])\<close>. The test
  \<^verbatim>\<open>len(row) > 1 and row[0] and row[1]\<close> reads the cells only of a row with two columns.
\<close>

definition keep_row :: "string list \<Rightarrow> bool" where
  "keep_row r = (if length r > 1 then r ! 0 \<noteq> [] \<and> r ! 1 \<noteq> [] else False)"

definition make_row :: "nat \<Rightarrow> string list \<Rightarrow> row" where
  "make_row idx r =
     \<lparr>row_number = int idx + 2, prompt = r ! 0,
      image_url = (if length r > 1 then r ! 1 else [])\<rparr>"

definition filtered_rows :: "string list list \<Rightarrow> row list" where
  "filtered_rows vals =
     map (\<lambda>(idx, r). make_row idx r)
       (filter (\<lambda>(idx, r). keep_row r) (enumerate 0 (drop 1 vals)))"

text \<open>
  \<^verbatim>\<open>filter_rows\<close>. Both handlers (\<^verbatim>\<open>except HttpError\<close>, \<^verbatim>\<open>except Exception\<close>) set the same
  message; \<^verbatim>\<open>result.get("values", [])\<close> is the empty table when the key is absent.
\<close>

definition filter_rows :: "env \<Rightarrow> config \<Rightarrow> config" where
  "filter_rows e cfg =
     (let (w, s) = cfg in
      case get_sheets_service (fetch_service e) w of
        (w1, Inl msg) \<Rightarrow>
          (w1 @ [LogError (''Error filtering rows: '' @ msg)],
           s\<lparr>error := Some (''Error filtering rows: '' @ msg)\<rparr>)
      | (w1, Inr service) \<Rightarrow>
          (case sheets_retry (sheets_get e) SheetsGet [0..<max_retries] w1 of
             (w2, Inl msg) \<Rightarrow>
               (w2 @ [LogError (''Error filtering rows: '' @ msg)],
                s\<lparr>error := Some (''Error filtering rows: '' @ msg)\<rparr>)
           | (w2, Inr result) \<Rightarrow>
               (w2, s\<lparr>rows := filtered_rows (case result of None \<Rightarrow> [] | Some vals \<Rightarrow> vals),
                       current_row_index := 0, error := None\<rparr>)))"

section \<open>Node 2: generate\_caption\<close>

text \<open>
  The end of a failed \<^verbatim>\<open>try\<close> block: \<^verbatim>\<open>state["error"] = f"<prefix>{str(e)}"\<close>,
  \<^verbatim>\<open>logger.error(state["error"])\<close>, \<^verbatim>\<open>return state\<close>.
\<close>

definition record_error :: "string \<Rightarrow> event list \<Rightarrow> workflow_state \<Rightarrow> config" where
  "record_error msg w s = (w @ [LogError msg], s\<lparr>error := Some msg\<rparr>)"

definition no_more_rows :: string where
  "no_more_rows = ''No more rows to process''"

definition generate_caption :: "env \<Rightarrow> config \<Rightarrow> config" where
  "generate_caption e cfg =
     (let (w, s) = cfg in
      if truthy (error s) then (w, s)
      else if current_row_index s \<ge> int (length (rows s))
      then (w, s\<lparr>error := Some no_more_rows\<rparr>)
      else
        (case py_index (rows s) (current_row_index s) of
           None \<Rightarrow> record_error (''Error generating caption: '' @ index_error) w s
         | Some current_row \<Rightarrow>
             (case gemini e (current_row_index s) of
                LlmRaises msg \<Rightarrow>
                  record_error (''Error generating caption: '' @ msg) (w @ [Gemini]) s
              | LlmContent content \<Rightarrow>
                  (w @ [Gemini], s\<lparr>caption := Some (strip content), error := None\<rparr>))))"

section \<open>Node 3: create\_instagram\_post\<close>

text \<open>
  \<^verbatim>\<open>error_json.get("error", {}).get("code")\<close> and the same for \<^verbatim>\<open>error_subcode\<close>: \<open>Inl\<close>
  is the \<^verbatim>\<open>AttributeError\<close> of a value under \<^verbatim>\<open>error\<close> that is no dict.
\<close>

definition error_codes :: "error_field \<Rightarrow> string + (int option \<times> int option)" where
  "error_codes f =
     (case f of
        ErrorAbsent \<Rightarrow> Inr (None, None)
      | ErrorNotDict msg \<Rightarrow> Inl msg
      | ErrorDict error_code error_subcode \<Rightarrow> Inr (error_code, error_subcode))"

text \<open>
  \<^verbatim>\<open>raise Exception(f"Failed to publish media after {max_retries} attempts:
  {publish_response.text}")\<close> after the loop; \<^verbatim>\<open>publish_response\<close> is the response of the
  last iteration, unbound (\<open>None\<close>) if there was none: reading it then raises
  \<^verbatim>\<open>UnboundLocalError\<close> (the message is the one of Python 3.11 and later).
\<close>

definition publish_failed :: "http_response option \<Rightarrow> string" where
  "publish_failed prev =
     (case prev of
        None \<Rightarrow>
          ''cannot access local variable '' @ [CHR 0x27] @ ''publish_response'' @ [CHR 0x27]
            @ '' where it is not associated with a value''
      | Some publish_response \<Rightarrow>
          ''Failed to publish media after 5 attempts: '' @ body_text publish_response)"

text \<open>
  The loop \<^verbatim>\<open>for attempt in range(max_retries)\<close> of step 2 (lines 200 to 223). The list
  is the rest of \<^verbatim>\<open>range(max_retries)\<close>, \<open>prev\<close> the variable \<^verbatim>\<open>publish_response\<close>. \<open>Inr\<close>
  is the post id of the \<^verbatim>\<open>return state\<close> inside the loop, \<open>Inl\<close> the \<^verbatim>\<open>str(e)\<close> of the
  exception that leaves it. A response with status 200 and no \<^verbatim>\<open>id\<close>, and a response
  with another status for which neither the error pair matches nor \<^verbatim>\<open>raise_for_status()\<close>
  raises, fall through to the next iteration without a sleep.
\<close>

fun publish_loop ::
  "(nat \<Rightarrow> http_outcome) \<Rightarrow> nat list \<Rightarrow> http_response option \<Rightarrow> event list
     \<Rightarrow> event list \<times> (string + string)" where
  "publish_loop publish [] prev w = (w, Inl (publish_failed prev))"
| "publish_loop publish (attempt # rest) prev w =
     (case publish attempt of
        PostRaises msg \<Rightarrow> (w @ [IgPublish], Inl msg)
      | Responds r \<Rightarrow>
          if status_code r = 200 then
            (case json r of
               JsonRaises msg \<Rightarrow> (w @ [IgPublish], Inl msg)
             | JsonNotDict msg \<Rightarrow> (w @ [IgPublish], Inl msg)
             | JsonDict publish_data \<Rightarrow>
                 (case id_field publish_data of
                    None \<Rightarrow> publish_loop publish rest (Some r) (w @ [IgPublish])
                  | Some pid \<Rightarrow>
                      if pid \<noteq> [] then (w @ [IgPublish], Inr pid)
                      else publish_loop publish rest (Some r) (w @ [IgPublish])))
          else
            (case json r of
               JsonRaises msg \<Rightarrow> (w @ [IgPublish], Inl msg)
             | JsonNotDict msg \<Rightarrow> (w @ [IgPublish], Inl msg)
             | JsonDict error_json \<Rightarrow>
                 (case error_codes (error_field error_json) of
                    Inl msg \<Rightarrow> (w @ [IgPublish], Inl msg)
                  | Inr (error_code, error_subcode) \<Rightarrow>
                      if error_code = Some 9007 \<and> error_subcode = Some 2207027
                      then publish_loop publish rest (Some r)
                             (w @ [IgPublish, Sleep (2 ^ attempt)])
                      else if raises_for_status r
                      then (w @ [IgPublish], Inl (http_error_msg r))
                      else publish_loop publish rest (Some r) (w @ [IgPublish]))))"

text \<open>\<^verbatim>\<open>caption[:50]\<close> of the log line raises \<^verbatim>\<open>TypeError\<close> when the caption is \<^verbatim>\<open>None\<close>.\<close>

definition none_not_subscriptable :: string where
  "none_not_subscriptable =
     [CHR 0x27] @ ''NoneType'' @ [CHR 0x27] @ '' object is not subscriptable''"

text \<open>
  The \<^verbatim>\<open>try\<close> block of \<^verbatim>\<open>create_instagram_post\<close>: step 1 creates the media container
  (one POST, \<^verbatim>\<open>raise_for_status()\<close>, the \<^verbatim>\<open>id\<close> of the body), step 2 is the loop.
\<close>

definition instagram_try :: "env \<Rightarrow> event list \<Rightarrow> workflow_state \<Rightarrow> event list \<times> (string + string)" where
  "instagram_try e w s =
     (case py_index (rows s) (current_row_index s) of
        None \<Rightarrow> (w, Inl index_error)
      | Some current_row \<Rightarrow>
          (case caption s of
             None \<Rightarrow> (w, Inl none_not_subscriptable)
           | Some cap \<Rightarrow>
               (case ig_media e (current_row_index s) of
                  PostRaises msg \<Rightarrow> (w @ [IgMedia], Inl msg)
                | Responds r \<Rightarrow>
                    if raises_for_status r then (w @ [IgMedia], Inl (http_error_msg r))
                    else
                      (case json r of
                         JsonRaises msg \<Rightarrow> (w @ [IgMedia], Inl msg)
                       | JsonNotDict msg \<Rightarrow> (w @ [IgMedia], Inl msg)
                       | JsonDict response_data \<Rightarrow>
                           if truthy (id_field response_data)
                           then publish_loop (ig_publish e (current_row_index s))
                                  [0..<max_retries] None (w @ [IgMedia])
                           else (w @ [IgMedia],
                                 Inl (''Failed to create media container: ''
                                        @ dict_repr response_data))))))"

definition create_instagram_post :: "env \<Rightarrow> config \<Rightarrow> config" where
  "create_instagram_post e cfg =
     (let (w, s) = cfg in
      if truthy (error s) then (w, s)
      else if current_row_index s \<ge> int (length (rows s))
      then (w, s\<lparr>error := Some no_more_rows\<rparr>)
      else
        (case instagram_try e w s of
           (w', Inl msg) \<Rightarrow> record_error (''Error creating Instagram post: '' @ msg) w' s
         | (w', Inr pid) \<Rightarrow> (w', s\<lparr>post_id := Some pid, error := None\<rparr>)))"

section \<open>Node 3b: create\_facebook\_post\<close>

text \<open>
  The \<^verbatim>\<open>try\<close> block of \<^verbatim>\<open>create_facebook_post\<close>. \<open>Inl\<close> is the message behind the
  prefix: the handler of \<^verbatim>\<open>requests.exceptions.HTTPError\<close> (raised by
  \<^verbatim>\<open>raise_for_status()\<close>) adds the text of the response, the handler of \<^verbatim>\<open>Exception\<close>
  does not.
\<close>

definition facebook_try :: "env \<Rightarrow> event list \<Rightarrow> workflow_state \<Rightarrow> event list \<times> (string + string)" where
  "facebook_try e w s =
     (case py_index (rows s) (current_row_index s) of
        None \<Rightarrow> (w, Inl index_error)
      | Some current_row \<Rightarrow>
          (case caption s of
             None \<Rightarrow> (w, Inl none_not_subscriptable)
           | Some cap \<Rightarrow>
               (case fb_photos e (current_row_index s) of
                  PostRaises msg \<Rightarrow> (w @ [FbPhotos], Inl msg)
                | Responds r \<Rightarrow>
                    if raises_for_status r
                    then (w @ [FbPhotos],
                          Inl (http_error_msg r @ ''. Response: '' @ body_text r))
                    else
                      (case json r of
                         JsonRaises msg \<Rightarrow> (w @ [FbPhotos], Inl msg)
                       | JsonNotDict msg \<Rightarrow> (w @ [FbPhotos], Inl msg)
                       | JsonDict response_data \<Rightarrow>
                           (case id_field response_data of
                              None \<Rightarrow>
                                (w @ [FbPhotos],
                                 Inl (''Failed to create Facebook post: ''
                                        @ dict_repr response_data))
                            | Some pid \<Rightarrow>
                                if pid \<noteq> [] then (w @ [FbPhotos], Inr pid)
                                else (w @ [FbPhotos],
                                      Inl (''Failed to create Facebook post: ''
                                             @ dict_repr response_data)))))))"

definition create_facebook_post :: "env \<Rightarrow> config \<Rightarrow> config" where
  "create_facebook_post e cfg =
     (let (w, s) = cfg in
      if truthy (error s) then (w, s)
      else if current_row_index s \<ge> int (length (rows s))
      then (w, s\<lparr>error := Some no_more_rows\<rparr>)
      else
        (case facebook_try e w s of
           (w', Inl msg) \<Rightarrow> record_error (''Error creating Facebook post: '' @ msg) w' s
         | (w', Inr pid) \<Rightarrow> (w', s\<lparr>facebook_post_id := Some pid, error := None\<rparr>)))"

section \<open>Node 4: clear\_row\<close>

text \<open>
  The \<^verbatim>\<open>try\<close> block of \<^verbatim>\<open>clear_row\<close> with its two handlers, which set the same message.
  The result is the configuration behind the block, the local \<^verbatim>\<open>current_row\<close> (\<open>None\<close>
  when the block failed before binding it) and the local \<^verbatim>\<open>clear_success\<close>.
\<close>

definition clear_try :: "env \<Rightarrow> event list \<Rightarrow> workflow_state \<Rightarrow> config \<times> row option \<times> bool" where
  "clear_try e w s =
     (case py_index (rows s) (current_row_index s) of
        None \<Rightarrow> (record_error (''Error clearing row: '' @ index_error) w s, None, False)
      | Some current_row \<Rightarrow>
          (case get_sheets_service (clear_service e (current_row_index s)) w of
             (w1, Inl msg) \<Rightarrow>
               (record_error (''Error clearing row: '' @ msg) w1 s, Some current_row, False)
           | (w1, Inr service) \<Rightarrow>
               (case sheets_retry (sheets_clear e (current_row_index s))
                       (SheetsClear (row_number current_row)) [0..<max_retries] w1 of
                  (w2, Inl msg) \<Rightarrow>
                    (record_error (''Error clearing row: '' @ msg) w2 s, Some current_row, False)
                | (w2, Inr done) \<Rightarrow> ((w2, s), Some current_row, True))))"

text \<open>
  An exception that leaves a node. The only one is the \<^verbatim>\<open>UnboundLocalError\<close> of
  \<^verbatim>\<open>clear_row\<close>: the warning after a failed clear reads \<^verbatim>\<open>current_row['row_number']\<close>
  outside the \<^verbatim>\<open>try\<close> block.
\<close>

datatype crash = UnboundLocalError

text \<open>
  \<^verbatim>\<open>clear_row\<close> has no test of \<^verbatim>\<open>state["error"]\<close>. After the \<^verbatim>\<open>try\<close> block it always
  moves to the next row and resets the fields of the row and the error.
\<close>

definition clear_row :: "env \<Rightarrow> config \<Rightarrow> crash + config" where
  "clear_row e cfg =
     (let (w, s) = cfg in
      if current_row_index s \<ge> int (length (rows s))
      then Inr (w, s\<lparr>error := Some no_more_rows\<rparr>)
      else
        (case clear_try e w s of
           ((w', s'), current_row, clear_success) \<Rightarrow>
             if \<not> clear_success \<and> current_row = None then Inl UnboundLocalError
             else Inr (w', s'\<lparr>current_row_index := current_row_index s' + 1,
                              caption := None, post_id := None,
                              facebook_post_id := None, error := None\<rparr>)))"

section \<open>The graph\<close>

datatype node = FilterRows | GenerateCaption | CreateInstagramPost | CreateFacebookPost | ClearRow

text \<open>The conditional edges; \<open>None\<close> is \<^verbatim>\<open>END\<close>.\<close>

definition decide_after_instagram :: "workflow_state \<Rightarrow> node option" where
  "decide_after_instagram s =
     (if truthy (post_id s) \<and> \<not> truthy (error s) then Some CreateFacebookPost else None)"

definition decide_after_facebook :: "workflow_state \<Rightarrow> node option" where
  "decide_after_facebook s =
     (if truthy (facebook_post_id s) \<and> \<not> truthy (error s) then Some ClearRow else None)"

definition decide_next_step :: "workflow_state \<Rightarrow> node option" where
  "decide_next_step s =
     (if current_row_index s \<ge> int (length (rows s)) then None else Some GenerateCaption)"

text \<open>
  \<^verbatim>\<open>workflow.add_edge\<close> and \<^verbatim>\<open>workflow.add_conditional_edges\<close>: the node that follows a
  node, from the state the node returned.
\<close>

fun next_node :: "node \<Rightarrow> workflow_state \<Rightarrow> node option" where
  "next_node FilterRows s = Some GenerateCaption"
| "next_node GenerateCaption s = Some CreateInstagramPost"
| "next_node CreateInstagramPost s = decide_after_instagram s"
| "next_node CreateFacebookPost s = decide_after_facebook s"
| "next_node ClearRow s = decide_next_step s"

text \<open>\<^verbatim>\<open>workflow.add_node\<close>: the function of each node.\<close>

fun run_node :: "env \<Rightarrow> node \<Rightarrow> config \<Rightarrow> crash + config" where
  "run_node e FilterRows cfg = Inr (filter_rows e cfg)"
| "run_node e GenerateCaption cfg = Inr (generate_caption e cfg)"
| "run_node e CreateInstagramPost cfg = Inr (create_instagram_post e cfg)"
| "run_node e CreateFacebookPost cfg = Inr (create_facebook_post e cfg)"
| "run_node e ClearRow cfg = clear_row e cfg"

text \<open>
  The run of the compiled graph from a node, as \<^verbatim>\<open>graph.stream\<close> reports it: the nodes
  that ran, each with the configuration it returned, and how the run stopped. The number
  is the steps that the graph library still has (its \<^verbatim>\<open>recursion_limit\<close>): every node
  takes one, and behind the last node the library needs one more to find that nothing is
  left to run. Without it the library raises \<^verbatim>\<open>GraphRecursionError\<close> (\<open>OutOfSteps\<close>),
  also when the last node led to \<^verbatim>\<open>END\<close>.
\<close>

datatype run_status = Ended | OutOfSteps | Crashed crash

fun run_from :: "env \<Rightarrow> nat \<Rightarrow> node \<Rightarrow> config \<Rightarrow> (node \<times> config) list \<times> run_status" where
  "run_from e 0 n cfg = ([], OutOfSteps)"
| "run_from e (Suc k) n cfg =
     (case run_node e n cfg of
        Inl c \<Rightarrow> ([], Crashed c)
      | Inr cfg' \<Rightarrow>
          (case next_node n (snd cfg') of
             None \<Rightarrow> ([(n, cfg')], if k = 0 then OutOfSteps else Ended)
           | Some n' \<Rightarrow>
               (case run_from e k n' cfg' of (xs, st) \<Rightarrow> ((n, cfg') # xs, st))))"

definition initial_state :: workflow_state where
  "initial_state =
     \<lparr>rows = [], current_row_index = 0, caption = None, post_id = None,
      facebook_post_id = None, error = None\<rparr>"

definition recursion_limit :: nat where
  "recursion_limit = 100"

definition run_workflow :: "env \<Rightarrow> (node \<times> config) list \<times> run_status" where
  "run_workflow e = run_from e recursion_limit FilterRows ([], initial_state)"

section \<open>Vocabulary of the properties\<close>

text \<open>
  The filtered rows in the words of the specification: of the raw rows behind the header,
  those whose columns A and B are both non-empty, in order, each numbered with its index
  among the raw rows behind the header plus 2 (its 1-based row in the sheet, the header
  being row 1). A column that the row does not reach is empty.
\<close>

definition cell :: "string list \<Rightarrow> nat \<Rightarrow> string" where
  "cell r j = (if j < length r then r ! j else [])"

definition rows_by_raw_index :: "string list list \<Rightarrow> row list" where
  "rows_by_raw_index vals =
     map (\<lambda>i. \<lparr>row_number = int i + 2, prompt = cell (drop 1 vals ! i) 0,
                image_url = cell (drop 1 vals ! i) 1\<rparr>)
       (filter (\<lambda>i. cell (drop 1 vals ! i) 0 \<noteq> [] \<and> cell (drop 1 vals ! i) 1 \<noteq> [])
          [0..<length (drop 1 vals)])"

definition example_table :: "string list list" where
  "example_table =
     [[''p'', ''u''], [''desc1'', ''http://a''], ['''', ''http://b''], [''desc3'', ''http://c'']]"

text \<open>The lengths of the sleeps in a sequence of events, in order.\<close>

fun sleeps :: "event list \<Rightarrow> nat list" where
  "sleeps [] = []"
| "sleeps (Sleep n # evs) = n # sleeps evs"
| "sleeps (ev # evs) = sleeps evs"

text \<open>The sleeps that lie between two attempts: those with a later occurrence of \<open>call\<close>.\<close>

fun sleeps_between :: "event \<Rightarrow> event list \<Rightarrow> nat list" where
  "sleeps_between call [] = []"
| "sleeps_between call (Sleep n # evs) =
     (if call \<in> set evs then n # sleeps_between call evs else sleeps_between call evs)"
| "sleeps_between call (ev # evs) = sleeps_between call evs"

text \<open>
  A response whose body carries the error pair (9007, 2207027) of a media that is not
  ready, whatever its status.
\<close>

definition carries_pair :: "http_response \<Rightarrow> bool" where
  "carries_pair r =
     (case json r of
        JsonDict d \<Rightarrow>
          (case error_field d of
             ErrorDict error_code error_subcode \<Rightarrow>
               error_code = Some 9007 \<and> error_subcode = Some 2207027
           | _ \<Rightarrow> False)
      | _ \<Rightarrow> False)"

text \<open>
  The index along a run: after every node but \<open>ClearRow\<close> it is what it was, after
  \<open>ClearRow\<close> it is one more.
\<close>

fun index_steps :: "int \<Rightarrow> (node \<times> config) list \<Rightarrow> bool" where
  "index_steps i [] = True"
| "index_steps i ((n, (w, s)) # xs) =
     (current_row_index s = (if n = ClearRow then i + 1 else i)
      \<and> index_steps (current_row_index s) xs)"

text \<open>
  Responses and a world for the concrete cases: \<open>id_response\<close> carries an id,
  \<open>error_response\<close> an error with a code and a subcode; in \<open>calm_env\<close> every call
  succeeds at once and the sheet holds the example table.
\<close>

definition id_response :: "int \<Rightarrow> string \<Rightarrow> http_response" where
  "id_response status pid =
     \<lparr>status_code = status, body_text = ''{id}'', http_error_msg = ''HTTP error'',
      json = JsonDict \<lparr>id_field = Some pid, error_field = ErrorAbsent, dict_repr = ''{id}''\<rparr>\<rparr>"

definition error_response :: "int \<Rightarrow> int \<Rightarrow> int \<Rightarrow> http_response" where
  "error_response status error_code error_subcode =
     \<lparr>status_code = status, body_text = ''{error}'', http_error_msg = ''HTTP error'',
      json = JsonDict \<lparr>id_field = None,
                       error_field = ErrorDict (Some error_code) (Some error_subcode),
                       dict_repr = ''{error}''\<rparr>\<rparr>"

definition empty_response :: "int \<Rightarrow> http_response" where
  "empty_response status =
     \<lparr>status_code = status, body_text = ''{}'', http_error_msg = ''HTTP error'',
      json = JsonDict \<lparr>id_field = None, error_field = ErrorAbsent, dict_repr = ''{}''\<rparr>\<rparr>"

definition calm_env :: env where
  "calm_env =
     \<lparr>fetch_service = ServiceReady,
      sheets_get = (\<lambda>attempt. Executed (Some example_table)),
      gemini = (\<lambda>i. LlmContent '' a caption ''),
      ig_media = (\<lambda>i. Responds (id_response 200 ''17'')),
      ig_publish = (\<lambda>i attempt. Responds (id_response 200 ''999'')),
      fb_photos = (\<lambda>i. Responds (id_response 200 ''55'')),
      clear_service = (\<lambda>i. ServiceReady),
      sheets_clear = (\<lambda>i attempt. Executed ())\<rparr>"

definition one_row_state :: workflow_state where
  "one_row_state =
     \<lparr>rows = [\<lparr>row_number = 2, prompt = ''desc1'', image_url = ''http://a''\<rparr>],
      current_row_index = 0, caption = Some ''a caption'', post_id = None,
      facebook_post_id = None, error = None\<rparr>"

text \<open>
  The outcomes that the retry loops answer with a sleep and another attempt: for a Sheets
  request an \<^verbatim>\<open>HttpError\<close> with status 429, 500 or 503, for the publish call a response
  with a status other than 200 whose body carries the error pair.
\<close>

definition retryable_failure :: "'a sheets_outcome \<Rightarrow> bool" where
  "retryable_failure out =
     (case out of HttpError status msg \<Rightarrow> status \<in> set [429, 500, 503] | _ \<Rightarrow> False)"

definition media_not_ready :: "http_outcome \<Rightarrow> bool" where
  "media_not_ready out =
     (case out of Responds r \<Rightarrow> status_code r \<noteq> 200 \<and> carries_pair r | _ \<Rightarrow> False)"

definition response_text :: "http_outcome \<Rightarrow> string" where
  "response_text out = (case out of Responds r \<Rightarrow> body_text r | PostRaises msg \<Rightarrow> [])"

text \<open>
  \<open>create_instagram_post\<close> reaches its publish loop: no error at entry, the index in
  bounds, a caption, and a media container created (a response for which
  \<^verbatim>\<open>raise_for_status()\<close> does not raise, with an \<^verbatim>\<open>id\<close> in its body).
\<close>

definition ready_to_publish :: "env \<Rightarrow> workflow_state \<Rightarrow> bool" where
  "ready_to_publish e s =
     (\<not> truthy (error s) \<and> 0 \<le> current_row_index s
      \<and> current_row_index s < int (length (rows s)) \<and> caption s \<noteq> None
      \<and> (case ig_media e (current_row_index s) of
            Responds m \<Rightarrow>
              \<not> raises_for_status m
              \<and> (case json m of JsonDict d \<Rightarrow> truthy (id_field d) | _ \<Rightarrow> False)
          | PostRaises msg \<Rightarrow> False))"

text \<open>Five attempts of a call, each followed by its sleep.\<close>

definition backoff_events :: "event \<Rightarrow> event list" where
  "backoff_events call =
     [call, Sleep 1, call, Sleep 2, call, Sleep 4, call, Sleep 8, call, Sleep 16]"

definition max_retries_exceeded :: string where
  "max_retries_exceeded = ''Max retries exceeded for Google Sheets API call''"

definition is_call :: "event \<Rightarrow> bool" where
  "is_call ev = (case ev of Sleep n \<Rightarrow> False | LogError msg \<Rightarrow> False | _ \<Rightarrow> True)"

text \<open>
  A world in which every retried call fails in the retryable way at every attempt.
\<close>

definition stormy_env :: env where
  "stormy_env =
     calm_env\<lparr>sheets_get := (\<lambda>attempt. HttpError 503 ''unavailable''),
              sheets_clear := (\<lambda>i attempt. HttpError 429 ''quota''),
              ig_publish := (\<lambda>i attempt. Responds (error_response 400 9007 2207027))\<rparr>"

text \<open>
  A response of the publish call with status 200 and a body without an \<^verbatim>\<open>id\<close>.
\<close>

definition ok_without_id :: "http_outcome \<Rightarrow> bool" where
  "ok_without_id out =
     (case out of
        Responds r \<Rightarrow>
          status_code r = 200
          \<and> (case json r of JsonDict d \<Rightarrow> \<not> truthy (id_field d) | _ \<Rightarrow> False)
      | PostRaises msg \<Rightarrow> False)"

text \<open>
  Worlds for the scenario of three answers "media not ready" and then the id 999: the
  three answers come with the status \<open>status\<close>.
\<close>

definition not_ready_thrice_env :: "int \<Rightarrow> env" where
  "not_ready_thrice_env status =
     calm_env\<lparr>ig_publish :=
       (\<lambda>i attempt. if attempt < 3 then Responds (error_response status 9007 2207027)
                      else Responds (id_response 200 ''999''))\<rparr>"

definition response_of :: "http_outcome \<Rightarrow> http_response option" where
  "response_of out = (case out of Responds r \<Rightarrow> Some r | PostRaises msg \<Rightarrow> None)"

definition not_ready_thrice_events :: "event list" where
  "not_ready_thrice_events =
     [IgMedia, IgPublish, Sleep 1, IgPublish, Sleep 2, IgPublish, Sleep 4, IgPublish]"

text \<open>A world in which the publish call always answers with status 200 and no id.\<close>

definition no_id_env :: env where
  "no_id_env = calm_env\<lparr>ig_publish := (\<lambda>i attempt. Responds (empty_response 200))\<rparr>"

text \<open>A world in which the publish call answers with status 400 and another error.\<close>

definition fatal_env :: env where
  "fatal_env = calm_env\<lparr>ig_publish := (\<lambda>i attempt. Responds (error_response 400 100 33))\<rparr>"

text \<open>
  A world in which the clear call is refused (status 403, not retried), and one in which
  the Sheets client cannot be built for the fetch.
\<close>

definition clear_denied_env :: env where
  "clear_denied_env = calm_env\<lparr>sheets_clear := (\<lambda>i attempt. HttpError 403 ''forbidden'')\<rparr>"

definition fetch_failed_env :: env where
  "fetch_failed_env = calm_env\<lparr>fetch_service := ServiceRaises ''no credentials''\<rparr>"

text \<open>The sheet rows that the clear calls of a sequence of events name, in order.\<close>

fun clears :: "event list \<Rightarrow> int list" where
  "clears [] = []"
| "clears (SheetsClear rn # evs) = rn # clears evs"
| "clears (ev # evs) = clears evs"

text \<open>
  Worlds in which a publisher refuses every request: the media container is answered with
  status 400, the photo post with status 500.
\<close>

definition media_refused_env :: env where
  "media_refused_env = calm_env\<lparr>ig_media := (\<lambda>i. Responds (empty_response 400))\<rparr>"

definition photo_refused_env :: env where
  "photo_refused_env = calm_env\<lparr>fb_photos := (\<lambda>i. Responds (empty_response 500))\<rparr>"

section \<open>Properties of filter\_rows\<close>

lemma enumerate_nth: "enumerate 0 xs = map (\<lambda>i. (i, xs ! i)) [0..<length xs]"
  by (rule nth_equalityI) (auto simp: nth_enumerate_eq)

lemma keep_row_cell: "keep_row r = (cell r 0 \<noteq> [] \<and> cell r (Suc 0) \<noteq> [])"
  by (auto simp: keep_row_def cell_def)

lemma make_row_cell:
  "keep_row r \<Longrightarrow>
   make_row i r = \<lparr>row_number = int i + 2, prompt = cell r 0, image_url = cell r (Suc 0)\<rparr>"
  by (auto simp: keep_row_def make_row_def cell_def split: if_splits)

lemma filtered_rows_by_raw_index: "filtered_rows vals = rows_by_raw_index vals"
proof -
  let ?body = "drop (Suc 0) vals"
  have "filtered_rows vals =
      map (\<lambda>i. make_row i (?body ! i)) (filter (\<lambda>i. keep_row (?body ! i)) [0..<length ?body])"
    by (simp add: filtered_rows_def enumerate_nth filter_map o_def)
  also have "\<dots> =
      map (\<lambda>i. \<lparr>row_number = int i + 2, prompt = cell (?body ! i) 0,
                 image_url = cell (?body ! i) (Suc 0)\<rparr>)
        (filter (\<lambda>i. keep_row (?body ! i)) [0..<length ?body])"
    by (rule map_cong [OF refl]) (simp add: make_row_cell)
  finally show ?thesis
    by (simp add: rows_by_raw_index_def keep_row_cell)
qed

lemma range_max_retries: "[0..<max_retries] = [0, 1, 2, 3, 4]"
  by (simp add: max_retries_def upt_rec)

lemma example_rows:
  "filtered_rows example_table =
     [\<lparr>row_number = 2, prompt = ''desc1'', image_url = ''http://a''\<rparr>,
      \<lparr>row_number = 4, prompt = ''desc3'', image_url = ''http://c''\<rparr>]"
  by (simp add: filtered_rows_by_raw_index rows_by_raw_index_def example_table_def
      cell_def upt_rec)

text \<open>
  C2. When the fetch succeeds with the table \<open>vals\<close>, \<open>filter_rows\<close> stores exactly the
  rows behind the header whose columns A and B are both non-empty, in order, each with
  \<open>row_number\<close> equal to its index among the raw rows behind the header plus 2 (the
  \<^verbatim>\<open>idx + 2\<close> over \<^verbatim>\<open>enumerate(values[1:])\<close>). The step also sets the index to 0 and the
  error to \<open>None\<close>. The example table gives the rows numbered 2 and 4; the row with
  the blank prompt, sheet row 3, is left out.
\<close>

theorem filter_rows_keeps_rows_with_both_columns:
  assumes "fetch_service e = ServiceReady"
    and "sheets_retry (sheets_get e) SheetsGet [0..<max_retries] w = (w', Inr (Some vals))"
  shows "filter_rows e (w, s) =
           (w', s\<lparr>rows := rows_by_raw_index vals, current_row_index := 0, error := None\<rparr>)
         \<and> filtered_rows vals = rows_by_raw_index vals
         \<and> filtered_rows example_table =
             [\<lparr>row_number = 2, prompt = ''desc1'', image_url = ''http://a''\<rparr>,
              \<lparr>row_number = 4, prompt = ''desc3'', image_url = ''http://c''\<rparr>]
         \<and> map row_number (filtered_rows example_table) = [2, 4]"
proof -
  have "filter_rows e (w, s) =
      (w', s\<lparr>rows := filtered_rows vals, current_row_index := 0, error := None\<rparr>)"
    using assms by (simp add: filter_rows_def get_sheets_service_def)
  then show ?thesis
    by (simp add: filtered_rows_by_raw_index [symmetric] example_rows)
qed

theorem filter_rows_keeps_rows_with_both_columns_witness:
  "filter_rows calm_env ([], initial_state) =
     ([SheetsGet],
      initial_state\<lparr>rows := rows_by_raw_index example_table, current_row_index := 0,
                      error := None\<rparr>)
   \<and> filtered_rows example_table = rows_by_raw_index example_table
   \<and> filtered_rows example_table =
       [\<lparr>row_number = 2, prompt = ''desc1'', image_url = ''http://a''\<rparr>,
        \<lparr>row_number = 4, prompt = ''desc3'', image_url = ''http://c''\<rparr>]
   \<and> map row_number (filtered_rows example_table) = [2, 4]"
proof -
  have ready: "fetch_service calm_env = ServiceReady"
    by (simp add: calm_env_def)
  have fetched: "sheets_retry (sheets_get calm_env) SheetsGet [0..<max_retries] [] =
      ([SheetsGet], Inr (Some example_table))"
    by (simp add: calm_env_def range_max_retries)
  show ?thesis
    by (rule filter_rows_keeps_rows_with_both_columns [OF ready fetched])
qed

section \<open>Properties of the retry loops\<close>

lemma sheets_retry_retryable:
  "retryable_failure (execute attempt) \<Longrightarrow>
   sheets_retry execute call (attempt # rest) w =
     sheets_retry execute call rest (w @ [call, Sleep (2 ^ attempt)])"
  by (cases "execute attempt") (simp_all add: retryable_failure_def)

lemma publish_loop_not_ready:
  "publish attempt = Responds r \<Longrightarrow> status_code r \<noteq> 200 \<Longrightarrow> carries_pair r \<Longrightarrow>
   publish_loop publish (attempt # rest) prev w =
     publish_loop publish rest (Some r) (w @ [IgPublish, Sleep (2 ^ attempt)])"
  by (auto simp: carries_pair_def error_codes_def split: json_body.splits error_field.splits)

lemma publish_loop_media_not_ready:
  "media_not_ready (publish attempt) \<Longrightarrow>
   \<exists>r. publish attempt = Responds r \<and>
   publish_loop publish (attempt # rest) prev w =
     publish_loop publish rest (Some r) (w @ [IgPublish, Sleep (2 ^ attempt)])"
  by (cases "publish attempt") (simp_all add: media_not_ready_def publish_loop_not_ready del: publish_loop.simps)

lemma publish_loop_no_id:
  "publish attempt = Responds r \<Longrightarrow> status_code r = 200 \<Longrightarrow> json r = JsonDict d \<Longrightarrow>
   \<not> truthy (id_field d) \<Longrightarrow>
   publish_loop publish (attempt # rest) prev w =
     publish_loop publish rest (Some r) (w @ [IgPublish])"
  by (auto simp: truthy_def split: option.splits)

lemma publish_loop_id:
  "publish attempt = Responds r \<Longrightarrow> status_code r = 200 \<Longrightarrow> json r = JsonDict d \<Longrightarrow>
   id_field d = Some pid \<Longrightarrow> pid \<noteq> [] \<Longrightarrow>
   publish_loop publish (attempt # rest) prev w = (w @ [IgPublish], Inr pid)"
  by auto

lemma sheets_retry_exhausted:
  assumes "\<forall>attempt<max_retries. retryable_failure (execute attempt)"
  shows "sheets_retry execute call [0..<max_retries] w =
    (w @ backoff_events call, Inl max_retries_exceeded)"
proof -
  have "retryable_failure (execute 0)" "retryable_failure (execute 1)" "retryable_failure (execute 2)"
    "retryable_failure (execute 3)" "retryable_failure (execute 4)"
    using assms by (simp_all add: max_retries_def)
  then show ?thesis
    by (simp add: range_max_retries sheets_retry_retryable backoff_events_def max_retries_exceeded_def del: sheets_retry.simps(2))
qed

lemma publish_loop_exhausted:
  assumes "\<forall>attempt<max_retries. media_not_ready (publish attempt)"
  shows "publish_loop publish [0..<max_retries] prev w =
    (w @ backoff_events IgPublish,
     Inl (''Failed to publish media after 5 attempts: '' @ response_text (publish 4)))"
proof -
  have nr: "media_not_ready (publish 0)" "media_not_ready (publish 1)" "media_not_ready (publish 2)"
    "media_not_ready (publish 3)" "media_not_ready (publish 4)"
    using assms by (simp_all add: max_retries_def)
  obtain r0 where r0: "publish 0 = Responds r0" "status_code r0 \<noteq> 200" "carries_pair r0"
    using nr(1) by (cases "publish 0") (simp_all add: media_not_ready_def)
  obtain r1 where r1: "publish (Suc 0) = Responds r1" "status_code r1 \<noteq> 200" "carries_pair r1"
    using nr(2) by (cases "publish (Suc 0)") (simp_all add: media_not_ready_def)
  obtain r2 where r2: "publish 2 = Responds r2" "status_code r2 \<noteq> 200" "carries_pair r2"
    using nr(3) by (cases "publish 2") (simp_all add: media_not_ready_def)
  obtain r3 where r3: "publish 3 = Responds r3" "status_code r3 \<noteq> 200" "carries_pair r3"
    using nr(4) by (cases "publish 3") (simp_all add: media_not_ready_def)
  obtain r4 where r4: "publish 4 = Responds r4" "status_code r4 \<noteq> 200" "carries_pair r4"
    using nr(5) by (cases "publish 4") (simp_all add: media_not_ready_def)
  show ?thesis
    unfolding range_max_retries
    by (simp add: publish_loop_not_ready [of publish 0 r0, OF r0] publish_loop_not_ready [of publish "Suc 0" r1, OF r1]
        publish_loop_not_ready [of publish 2 r2, OF r2] publish_loop_not_ready [of publish 3 r3, OF r3]
        publish_loop_not_ready [of publish 4 r4, OF r4] backoff_events_def publish_failed_def response_text_def r4(1)
        del: publish_loop.simps(2))
qed

lemma py_index_in_bounds:
  "0 \<le> i \<Longrightarrow> i < int (length xs) \<Longrightarrow> py_index xs i = Some (xs ! nat i)"
  by (simp add: py_index_def Let_def)

lemma create_instagram_post_loop:
  assumes "ready_to_publish e s"
  shows "create_instagram_post e (w, s) =
    (case publish_loop (ig_publish e (current_row_index s)) [0..<max_retries] None (w @ [IgMedia]) of
       (w', Inl msg) \<Rightarrow> record_error (''Error creating Instagram post: '' @ msg) w' s
     | (w', Inr pid) \<Rightarrow> (w', s\<lparr>post_id := Some pid, error := None\<rparr>))"
proof -
  have "instagram_try e w s =
      publish_loop (ig_publish e (current_row_index s)) [0..<max_retries] None (w @ [IgMedia])"
    using assms
    by (auto simp: ready_to_publish_def instagram_try_def py_index_in_bounds
        split: http_outcome.splits json_body.splits)
  then show ?thesis
    using assms by (simp add: create_instagram_post_def ready_to_publish_def del: append.simps)
qed

lemma clear_row_in_bounds:
  assumes "0 \<le> current_row_index s" "current_row_index s < int (length (rows s))"
  shows "clear_row e (w, s) =
    (case get_sheets_service (clear_service e (current_row_index s)) w of
       (w1, Inl msg) \<Rightarrow> Inr (w1 @ [LogError (''Error clearing row: '' @ msg)], s\<lparr>current_row_index := current_row_index s + 1, caption := None, post_id := None, facebook_post_id := None, error := None\<rparr>)
     | (w1, Inr service) \<Rightarrow>
        (case sheets_retry (sheets_clear e (current_row_index s))
                (SheetsClear (row_number (rows s ! nat (current_row_index s)))) [0..<max_retries] w1 of
           (w2, Inl msg) \<Rightarrow> Inr (w2 @ [LogError (''Error clearing row: '' @ msg)], s\<lparr>current_row_index := current_row_index s + 1, caption := None, post_id := None, facebook_post_id := None, error := None\<rparr>)
         | (w2, Inr done) \<Rightarrow> Inr (w2, s\<lparr>current_row_index := current_row_index s + 1, caption := None, post_id := None, facebook_post_id := None, error := None\<rparr>)))"
  using assms
  by (simp add: clear_row_def clear_try_def py_index_in_bounds record_error_def
      split: prod.splits sum.splits)


lemma backoff_events_shape:
  "is_call call \<Longrightarrow>
   count_list (backoff_events call) call = 5 \<and> sleeps (backoff_events call) = [1, 2, 4, 8, 16]
   \<and> sleeps_between call (backoff_events call) = [1, 2, 4, 8]"
  by (cases call) (simp_all add: is_call_def backoff_events_def)

text \<open>
  C4. When every attempt of a retried call fails in the retryable way, the call is made
  exactly 5 times and the sleeps are 1, 2, 4, 8 and 16 seconds (2 to the power of the
  attempt, counted from 0): four of them lie between two attempts and the fifth follows
  the last attempt. Then the failure of the exhausted retries comes out: \<open>filter_rows\<close>
  stores and logs \<open>Error filtering rows: Max retries exceeded for Google Sheets API call\<close>,
  \<open>clear_row\<close> logs the same failure of the clear call (and moves on to the next row),
  \<open>create_instagram_post\<close> stores and logs \<open>Failed to publish media after 5 attempts\<close>
  with the text of the last response.
\<close>

theorem retries_exhausted_after_five_attempts:
  "(fetch_service e = ServiceReady
      \<and> (\<forall>attempt<max_retries. retryable_failure (sheets_get e attempt))
    \<longrightarrow> filter_rows e (w, s) =
          (w @ backoff_events SheetsGet
             @ [LogError (''Error filtering rows: '' @ max_retries_exceeded)],
           s\<lparr>error := Some (''Error filtering rows: '' @ max_retries_exceeded)\<rparr>))
   \<and> (0 \<le> current_row_index s \<and> current_row_index s < int (length (rows s))
      \<and> clear_service e (current_row_index s) = ServiceReady
      \<and> (\<forall>attempt<max_retries.
            retryable_failure (sheets_clear e (current_row_index s) attempt))
    \<longrightarrow> clear_row e (w, s) =
          Inr (w @ backoff_events (SheetsClear (row_number (rows s ! nat (current_row_index s))))
                 @ [LogError (''Error clearing row: '' @ max_retries_exceeded)],
               s\<lparr>current_row_index := current_row_index s + 1, caption := None,
                  post_id := None, facebook_post_id := None, error := None\<rparr>))
   \<and> (ready_to_publish e s
      \<and> (\<forall>attempt<max_retries. media_not_ready (ig_publish e (current_row_index s) attempt))
    \<longrightarrow> create_instagram_post e (w, s) =
          (w @ [IgMedia] @ backoff_events IgPublish
             @ [LogError (''Error creating Instagram post: ''
                            @ ''Failed to publish media after 5 attempts: ''
                            @ response_text (ig_publish e (current_row_index s) 4))],
           s\<lparr>error := Some (''Error creating Instagram post: ''
                              @ ''Failed to publish media after 5 attempts: ''
                              @ response_text (ig_publish e (current_row_index s) 4))\<rparr>))
   \<and> (is_call call
    \<longrightarrow> count_list (backoff_events call) call = 5
        \<and> sleeps (backoff_events call) = [1, 2, 4, 8, 16]
        \<and> sleeps_between call (backoff_events call) = [1, 2, 4, 8])"
proof (intro conjI impI)
  assume "fetch_service e = ServiceReady
      \<and> (\<forall>attempt<max_retries. retryable_failure (sheets_get e attempt))"
  then show "filter_rows e (w, s) =
          (w @ backoff_events SheetsGet
             @ [LogError (''Error filtering rows: '' @ max_retries_exceeded)],
           s\<lparr>error := Some (''Error filtering rows: '' @ max_retries_exceeded)\<rparr>)"
    by (simp add: filter_rows_def get_sheets_service_def sheets_retry_exhausted)
next
  assume "0 \<le> current_row_index s \<and> current_row_index s < int (length (rows s))
      \<and> clear_service e (current_row_index s) = ServiceReady
      \<and> (\<forall>attempt<max_retries.
            retryable_failure (sheets_clear e (current_row_index s) attempt))"
  then show "clear_row e (w, s) =
          Inr (w @ backoff_events (SheetsClear (row_number (rows s ! nat (current_row_index s))))
                 @ [LogError (''Error clearing row: '' @ max_retries_exceeded)],
               s\<lparr>current_row_index := current_row_index s + 1, caption := None,
                  post_id := None, facebook_post_id := None, error := None\<rparr>)"
    by (simp add: clear_row_in_bounds get_sheets_service_def sheets_retry_exhausted)
next
  assume "ready_to_publish e s
      \<and> (\<forall>attempt<max_retries. media_not_ready (ig_publish e (current_row_index s) attempt))"
  then show "create_instagram_post e (w, s) =
          (w @ [IgMedia] @ backoff_events IgPublish
             @ [LogError (''Error creating Instagram post: ''
                            @ ''Failed to publish media after 5 attempts: ''
                            @ response_text (ig_publish e (current_row_index s) 4))],
           s\<lparr>error := Some (''Error creating Instagram post: ''
                              @ ''Failed to publish media after 5 attempts: ''
                              @ response_text (ig_publish e (current_row_index s) 4))\<rparr>)"
    by (simp add: create_instagram_post_loop publish_loop_exhausted record_error_def)
qed (simp_all add: backoff_events_shape)

lemma stormy: "sheets_get stormy_env = (\<lambda>attempt. HttpError 503 ''unavailable'')"
  "sheets_clear stormy_env = (\<lambda>i attempt. HttpError 429 ''quota'')"
  "ig_publish stormy_env = (\<lambda>i attempt. Responds (error_response 400 9007 2207027))"
  "fetch_service stormy_env = ServiceReady" "clear_service stormy_env = (\<lambda>i. ServiceReady)"
  "ig_media stormy_env = (\<lambda>i. Responds (id_response 200 ''17''))"
  by (simp_all add: stormy_env_def calm_env_def)

theorem retries_exhausted_after_five_attempts_witness:
  "filter_rows stormy_env ([], one_row_state) =
     (backoff_events SheetsGet
        @ [LogError ''Error filtering rows: Max retries exceeded for Google Sheets API call''],
      one_row_state\<lparr>error :=
        Some ''Error filtering rows: Max retries exceeded for Google Sheets API call''\<rparr>)
   \<and> clear_row stormy_env ([], one_row_state) =
       Inr (backoff_events (SheetsClear 2)
              @ [LogError ''Error clearing row: Max retries exceeded for Google Sheets API call''],
            one_row_state\<lparr>current_row_index := 1, caption := None, post_id := None,
                            facebook_post_id := None, error := None\<rparr>)
   \<and> create_instagram_post stormy_env ([], one_row_state) =
       ([IgMedia] @ backoff_events IgPublish
          @ [LogError ''Error creating Instagram post: Failed to publish media after 5 attempts: {error}''],
        one_row_state\<lparr>error :=
          Some ''Error creating Instagram post: Failed to publish media after 5 attempts: {error}''\<rparr>)
   \<and> count_list (backoff_events IgPublish) IgPublish = 5
   \<and> sleeps (backoff_events IgPublish) = [1, 2, 4, 8, 16]
   \<and> sleeps_between IgPublish (backoff_events IgPublish) = [1, 2, 4, 8]"
  using retries_exhausted_after_five_attempts [of stormy_env "[]" one_row_state IgPublish]
  by (simp add: stormy one_row_state_def retryable_failure_def media_not_ready_def
      ready_to_publish_def carries_pair_def error_response_def id_response_def
      raises_for_status_def truthy_def is_call_def max_retries_exceeded_def response_text_def)

section \<open>Properties of the publish loop\<close>

lemma publish_loop_fatal:
  "publish attempt = Responds r \<Longrightarrow> status_code r \<noteq> 200 \<Longrightarrow> \<not> carries_pair r \<Longrightarrow>
   raises_for_status r \<Longrightarrow>
   \<exists>msg. publish_loop publish (attempt # rest) prev w = (w @ [IgPublish], Inl msg)"
  by (auto simp: carries_pair_def error_codes_def split: json_body.splits error_field.splits)

lemma publish_loop_no_sleep:
  "publish attempt = Responds r \<Longrightarrow> \<not> (status_code r \<noteq> 200 \<and> carries_pair r) \<Longrightarrow>
   publish_loop publish (attempt # rest) prev w = publish_loop publish rest (Some r) (w @ [IgPublish])
   \<or> (\<exists>res. publish_loop publish (attempt # rest) prev w = (w @ [IgPublish], res))"
  by (auto simp: carries_pair_def error_codes_def split: json_body.splits error_field.splits option.splits)

lemma publish_loop_ok_without_id:
  "ok_without_id (publish attempt) \<Longrightarrow>
   publish_loop publish (attempt # rest) prev w =
     publish_loop publish rest (response_of (publish attempt)) (w @ [IgPublish])"
  by (cases "publish attempt")
    (auto simp: ok_without_id_def truthy_def response_of_def split: json_body.splits option.splits)

lemma publish_loop_retry:
  "media_not_ready (publish attempt) \<Longrightarrow>
   publish_loop publish (attempt # rest) prev w =
     publish_loop publish rest (response_of (publish attempt))
       (w @ [IgPublish, Sleep (2 ^ attempt)])"
  by (cases "publish attempt")
    (simp_all add: media_not_ready_def response_of_def publish_loop_not_ready
      del: publish_loop.simps)

lemma publish_failed_response:
  "response_of out \<noteq> None \<Longrightarrow>
   publish_failed (response_of out) =
     ''Failed to publish media after 5 attempts: '' @ response_text out"
  by (cases out) (simp_all add: response_of_def publish_failed_def response_text_def)

lemma publish_loop_all_without_id:
  assumes "\<forall>attempt<max_retries. ok_without_id (publish attempt)"
  shows "publish_loop publish [0..<max_retries] prev w =
    (w @ [IgPublish, IgPublish, IgPublish, IgPublish, IgPublish],
     Inl (''Failed to publish media after 5 attempts: '' @ response_text (publish 4)))"
proof -
  have ok: "ok_without_id (publish 0)" "ok_without_id (publish (Suc 0))" "ok_without_id (publish 2)"
    "ok_without_id (publish 3)" "ok_without_id (publish 4)"
    using assms by (simp_all add: max_retries_def)
  have "response_of (publish 4) \<noteq> None"
    using ok(5) by (cases "publish 4") (simp_all add: ok_without_id_def response_of_def)
  then show ?thesis
    using ok
    by (simp add: range_max_retries publish_loop_ok_without_id publish_failed_response
        del: publish_loop.simps(2))
qed

lemma publish_loop_thrice:
  assumes "\<forall>attempt<3. media_not_ready (publish attempt)"
    and "publish 3 = Responds r" "status_code r = 200" "json r = JsonDict d"
    and "id_field d = Some pid" "pid \<noteq> []"
  shows "publish_loop publish [0..<max_retries] prev w =
    (w @ [IgPublish, Sleep 1, IgPublish, Sleep 2, IgPublish, Sleep 4, IgPublish], Inr pid)"
proof -
  have nr: "media_not_ready (publish 0)" "media_not_ready (publish (Suc 0))"
    "media_not_ready (publish 2)"
    using assms(1) by simp_all
  show ?thesis
    using nr
    by (simp add: range_max_retries publish_loop_retry
        publish_loop_id [of publish 3 r d pid, OF assms(2-6)] del: publish_loop.simps(2))
qed

text \<open>
  C6, as the code has it. When the publish call answers "media not ready" (the error
  pair, with a status other than 200) to the attempts 1 to 3 and with status 200 and the
  id 999 to attempt 4, \<open>create_instagram_post\<close> stores the post id 999, resets the
  error and returns: the publish call was made 4 times, whatever a fifth answer would
  have been, and the sleeps were 1, 2 and 4 seconds.
\<close>

theorem publish_succeeds_after_three_not_ready:
  assumes "ready_to_publish e s"
    and "\<forall>attempt<3. media_not_ready (ig_publish e (current_row_index s) attempt)"
    and "ig_publish e (current_row_index s) 3 = Responds r"
    and "status_code r = 200" and "json r = JsonDict d" and "id_field d = Some ''999''"
  shows "create_instagram_post e (w, s) =
           (w @ not_ready_thrice_events, s\<lparr>post_id := Some ''999'', error := None\<rparr>)
         \<and> sleeps not_ready_thrice_events = [1, 2, 4]
         \<and> count_list not_ready_thrice_events IgPublish = 4"
  using assms
  by (simp add: create_instagram_post_loop publish_loop_thrice [where pid = "''999''"]
      not_ready_thrice_events_def)

lemma thrice_env: "ig_publish (not_ready_thrice_env st) =
       (\<lambda>i attempt. if attempt < 3 then Responds (error_response st 9007 2207027)
                      else Responds (id_response 200 ''999''))"
  "ig_media (not_ready_thrice_env st) = (\<lambda>i. Responds (id_response 200 ''17''))"
  by (simp_all add: not_ready_thrice_env_def calm_env_def)

lemma ready_one_row: "ig_media e = (\<lambda>i. Responds (id_response 200 ''17'')) \<Longrightarrow> ready_to_publish e one_row_state"
  by (simp add: ready_to_publish_def one_row_state_def id_response_def raises_for_status_def truthy_def)

theorem publish_succeeds_after_three_not_ready_witness:
  "create_instagram_post (not_ready_thrice_env 400) ([], one_row_state) =
      (not_ready_thrice_events, one_row_state\<lparr>post_id := Some ''999'', error := None\<rparr>)
   \<and> sleeps not_ready_thrice_events = [1, 2, 4]
   \<and> count_list not_ready_thrice_events IgPublish = 4"
  using publish_succeeds_after_three_not_ready [of "not_ready_thrice_env 400" one_row_state
      "id_response 200 ''999''" "\<lparr>id_field = Some ''999'', error_field = ErrorAbsent, dict_repr = ''{id}''\<rparr>" "[]"]
  by (simp add: ready_one_row thrice_env media_not_ready_def carries_pair_def error_response_def id_response_def)

text \<open>
  C6 as stated fails when the three answers that carry the error pair come with status
  200: the id 999 is stored after 4 calls, but no sleep occurs.
\<close>

theorem no_sleep_when_not_ready_comes_with_status_200:
  "ig_publish (not_ready_thrice_env 200) 0 0 = Responds (error_response 200 9007 2207027)
   \<and> ig_publish (not_ready_thrice_env 200) 0 1 = Responds (error_response 200 9007 2207027)
   \<and> ig_publish (not_ready_thrice_env 200) 0 2 = Responds (error_response 200 9007 2207027)
   \<and> carries_pair (error_response 200 9007 2207027)
   \<and> ig_publish (not_ready_thrice_env 200) 0 3 = Responds (id_response 200 ''999'')
   \<and> create_instagram_post (not_ready_thrice_env 200) ([], one_row_state) =
       ([IgMedia, IgPublish, IgPublish, IgPublish, IgPublish],
        one_row_state\<lparr>post_id := Some ''999'', error := None\<rparr>)
   \<and> sleeps (fst (create_instagram_post (not_ready_thrice_env 200) ([], one_row_state))) \<noteq> [1, 2, 4]"
proof -
  have "create_instagram_post (not_ready_thrice_env 200) ([], one_row_state) =
       ([IgMedia, IgPublish, IgPublish, IgPublish, IgPublish],
        one_row_state\<lparr>post_id := Some ''999'', error := None\<rparr>)"
    unfolding create_instagram_post_loop [OF ready_one_row [OF thrice_env(2)]]
    by (simp add: thrice_env range_max_retries one_row_state_def error_response_def
        id_response_def)
  then show ?thesis
    by (simp add: thrice_env carries_pair_def error_response_def)
qed


text \<open>
  C10. An answer of the publish call with status 200 and no \<^verbatim>\<open>id\<close> in its body makes the
  loop go on with the next attempt at once, without a sleep. When all 5 attempts end this
  way, the node returns (nothing is raised out of it) with the error \<open>Error creating
  Instagram post: Failed to publish media after 5 attempts:\<close> and the text of the last
  response, stored and logged, after 5 publish calls and no sleep.
\<close>

theorem publish_without_id_is_reattempted_at_once:
  "(publish attempt = Responds r \<and> status_code r = 200 \<and> json r = JsonDict d
      \<and> \<not> truthy (id_field d)
    \<longrightarrow> publish_loop publish (attempt # rest) prev w =
          publish_loop publish rest (Some r) (w @ [IgPublish]))
   \<and> (ready_to_publish e s
      \<and> (\<forall>attempt<max_retries. ok_without_id (ig_publish e (current_row_index s) attempt))
    \<longrightarrow> run_node e CreateInstagramPost (w, s) =
          Inr (w @ [IgMedia, IgPublish, IgPublish, IgPublish, IgPublish, IgPublish,
                    LogError (''Error creating Instagram post: ''
                                @ ''Failed to publish media after 5 attempts: ''
                                @ response_text (ig_publish e (current_row_index s) 4))],
               s\<lparr>error := Some (''Error creating Instagram post: ''
                                  @ ''Failed to publish media after 5 attempts: ''
                                  @ response_text (ig_publish e (current_row_index s) 4))\<rparr>))"
proof (intro conjI impI)
  assume "publish attempt = Responds r \<and> status_code r = 200 \<and> json r = JsonDict d
      \<and> \<not> truthy (id_field d)"
  then show "publish_loop publish (attempt # rest) prev w =
          publish_loop publish rest (Some r) (w @ [IgPublish])"
    by (simp add: publish_loop_no_id del: publish_loop.simps)
next
  assume "ready_to_publish e s
      \<and> (\<forall>attempt<max_retries. ok_without_id (ig_publish e (current_row_index s) attempt))"
  then show "run_node e CreateInstagramPost (w, s) =
          Inr (w @ [IgMedia, IgPublish, IgPublish, IgPublish, IgPublish, IgPublish,
                    LogError (''Error creating Instagram post: ''
                                @ ''Failed to publish media after 5 attempts: ''
                                @ response_text (ig_publish e (current_row_index s) 4))],
               s\<lparr>error := Some (''Error creating Instagram post: ''
                                  @ ''Failed to publish media after 5 attempts: ''
                                  @ response_text (ig_publish e (current_row_index s) 4))\<rparr>)"
    by (simp add: create_instagram_post_loop publish_loop_all_without_id record_error_def)
qed

lemma no_id: "ig_publish no_id_env = (\<lambda>i attempt. Responds (empty_response 200))"
  "ig_media no_id_env = (\<lambda>i. Responds (id_response 200 ''17''))"
  by (simp_all add: no_id_env_def calm_env_def)

theorem publish_without_id_is_reattempted_at_once_witness:
  "publish_loop (ig_publish no_id_env 0) (2 # [3, 4]) None [] =
     publish_loop (ig_publish no_id_env 0) [3, 4] (Some (empty_response 200)) [IgPublish]
   \<and> run_node no_id_env CreateInstagramPost ([], one_row_state) =
       Inr ([IgMedia, IgPublish, IgPublish, IgPublish, IgPublish, IgPublish,
             LogError ''Error creating Instagram post: Failed to publish media after 5 attempts: {}''],
            one_row_state\<lparr>error :=
              Some ''Error creating Instagram post: Failed to publish media after 5 attempts: {}''\<rparr>)"
  using publish_without_id_is_reattempted_at_once [of "ig_publish no_id_env 0" 2
      "empty_response 200" "\<lparr>id_field = None, error_field = ErrorAbsent, dict_repr = ''{}''\<rparr>"
      "[3, 4]" None "[]" no_id_env one_row_state]
  by (simp add: ready_one_row no_id ok_without_id_def empty_response_def truthy_def
      response_text_def del: publish_loop.simps)

text \<open>
  C5, as the code has it. An answer of the publish call is followed by the sleep of
  \<open>2 ^ attempt\<close> seconds and the next attempt exactly when its status is not 200 and its
  body carries the error pair (9007, 2207027): with that answer the loop sleeps and goes
  on, with any other answer no sleep follows the attempt. An answer with a status from
  400 to 599 (and not 200) without the pair ends the loop with an exception, with no
  further attempt; at the first attempt of a row, the node stores and logs the error.
\<close>

theorem publish_attempt_classification:
  assumes "publish attempt = Responds r"
  shows "(status_code r \<noteq> 200 \<and> carries_pair r
          \<longrightarrow> publish_loop publish (attempt # rest) prev w =
                publish_loop publish rest (Some r) (w @ [IgPublish, Sleep (2 ^ attempt)]))
         \<and> (\<not> (status_code r \<noteq> 200 \<and> carries_pair r)
          \<longrightarrow> publish_loop publish (attempt # rest) prev w =
                publish_loop publish rest (Some r) (w @ [IgPublish])
              \<or> (\<exists>res. publish_loop publish (attempt # rest) prev w = (w @ [IgPublish], res)))
         \<and> (status_code r \<noteq> 200 \<and> \<not> carries_pair r \<and> raises_for_status r
          \<longrightarrow> (\<exists>msg. publish_loop publish (attempt # rest) prev w = (w @ [IgPublish], Inl msg)))
         \<and> (status_code r \<noteq> 200 \<and> \<not> carries_pair r \<and> raises_for_status r
            \<and> ready_to_publish e s \<and> publish = ig_publish e (current_row_index s) \<and> attempt = 0
          \<longrightarrow> (\<exists>msg. create_instagram_post e (w, s) =
                 (w @ [IgMedia, IgPublish, LogError (''Error creating Instagram post: '' @ msg)],
                  s\<lparr>error := Some (''Error creating Instagram post: '' @ msg)\<rparr>)))"
proof -
  have "\<exists>msg. create_instagram_post e (w, s) =
          (w @ [IgMedia, IgPublish, LogError (''Error creating Instagram post: '' @ msg)],
           s\<lparr>error := Some (''Error creating Instagram post: '' @ msg)\<rparr>)"
    if fatal: "status_code r \<noteq> 200" "\<not> carries_pair r" "raises_for_status r"
      and ready: "ready_to_publish e s"
      and first: "ig_publish e (current_row_index s) 0 = Responds r"
  proof -
    obtain msg where "publish_loop (ig_publish e (current_row_index s)) (0 # [1, 2, 3, 4]) None
        (w @ [IgMedia]) = ((w @ [IgMedia]) @ [IgPublish], Inl msg)"
      using publish_loop_fatal [of "ig_publish e (current_row_index s)" 0 r, OF first fatal] by blast
    then have "create_instagram_post e (w, s) =
          (w @ [IgMedia, IgPublish, LogError (''Error creating Instagram post: '' @ msg)],
           s\<lparr>error := Some (''Error creating Instagram post: '' @ msg)\<rparr>)"
      by (simp add: create_instagram_post_loop [OF ready] range_max_retries record_error_def
          del: publish_loop.simps)
    then show ?thesis ..
  qed
  then show ?thesis
    using assms publish_loop_not_ready [of publish attempt r rest prev w]
      publish_loop_no_sleep [of publish attempt r rest prev w]
      publish_loop_fatal [of publish attempt r rest prev w]
    by blast
qed

theorem publish_attempt_classification_witness:
  "publish_loop (\<lambda>attempt. Responds (error_response 400 9007 2207027)) (2 # [3, 4]) None [] =
     publish_loop (\<lambda>attempt. Responds (error_response 400 9007 2207027)) [3, 4]
       (Some (error_response 400 9007 2207027)) [IgPublish, Sleep 4]
   \<and> (\<exists>msg. publish_loop (ig_publish fatal_env 0) (0 # [1, 2, 3, 4]) None [] =
             ([IgPublish], Inl msg))
   \<and> (\<exists>msg. create_instagram_post fatal_env ([], one_row_state) =
             ([IgMedia, IgPublish, LogError (''Error creating Instagram post: '' @ msg)],
              one_row_state\<lparr>error := Some (''Error creating Instagram post: '' @ msg)\<rparr>))"
proof -
  have env: "ig_publish fatal_env 0 0 = Responds (error_response 400 100 33)"
    "ig_media fatal_env = (\<lambda>i. Responds (id_response 200 ''17''))"
    "current_row_index one_row_state = 0"
    by (simp_all add: fatal_env_def calm_env_def one_row_state_def)
  have not_ready: "status_code (error_response 400 9007 2207027) \<noteq> 200
      \<and> carries_pair (error_response 400 9007 2207027)"
    by (simp add: carries_pair_def error_response_def)
  have other: "status_code (error_response 400 100 33) \<noteq> 200
      \<and> \<not> carries_pair (error_response 400 100 33)
      \<and> raises_for_status (error_response 400 100 33)"
    by (simp add: carries_pair_def error_response_def raises_for_status_def)
  have "publish_loop (\<lambda>attempt. Responds (error_response 400 9007 2207027)) (2 # [3, 4]) None [] =
     publish_loop (\<lambda>attempt. Responds (error_response 400 9007 2207027)) [3, 4]
       (Some (error_response 400 9007 2207027)) ([] @ [IgPublish, Sleep (2 ^ 2)])"
    using publish_attempt_classification
        [of "\<lambda>attempt. Responds (error_response 400 9007 2207027)" 2
          "error_response 400 9007 2207027" "[3, 4]" None "[]" calm_env one_row_state, OF refl]
      not_ready
    by blast
  moreover have "(\<exists>msg. publish_loop (ig_publish fatal_env 0) (0 # [1, 2, 3, 4]) None [] =
             ([] @ [IgPublish], Inl msg))
      \<and> (\<exists>msg. create_instagram_post fatal_env ([], one_row_state) =
             ([] @ [IgMedia, IgPublish, LogError (''Error creating Instagram post: '' @ msg)],
              one_row_state\<lparr>error := Some (''Error creating Instagram post: '' @ msg)\<rparr>))"
    using publish_attempt_classification
        [of "ig_publish fatal_env 0" 0 "error_response 400 100 33" "[1, 2, 3, 4]" None "[]"
          fatal_env one_row_state, OF env(1)]
      other ready_one_row [OF env(2)] env(3)
    by simp
  ultimately show ?thesis
    by (simp del: publish_loop.simps)
qed

text \<open>
  C5 as stated fails twice. An answer with status 200 that carries the error pair is not
  put on the path of the sleeps: the loop makes its 5 attempts without a sleep. An answer
  with status 302, outside 2xx and without the pair, is not fatal: the loop goes on to
  the next attempt, 5 calls are made.
\<close>

theorem pair_with_status_200_is_no_backoff:
  "carries_pair (error_response 200 9007 2207027)
   \<and> publish_loop (\<lambda>attempt. Responds (error_response 200 9007 2207027)) [0..<max_retries] None [] =
       ([IgPublish, IgPublish, IgPublish, IgPublish, IgPublish],
        Inl ''Failed to publish media after 5 attempts: {error}'')
   \<and> \<not> carries_pair (empty_response 302)
   \<and> publish_loop (\<lambda>attempt. Responds (empty_response 302)) [0..<max_retries] None [] =
       ([IgPublish, IgPublish, IgPublish, IgPublish, IgPublish],
        Inl ''Failed to publish media after 5 attempts: {}'')"
  by (simp add: range_max_retries carries_pair_def error_response_def empty_response_def
      raises_for_status_def error_codes_def publish_failed_def)

section \<open>Properties of the single steps\<close>

lemma sheets_retry_extends: "\<exists>new. fst (sheets_retry execute call xs w) = w @ new"
proof (induction xs arbitrary: w)
  case Nil
  show ?case by simp
next
  case (Cons attempt rest)
  obtain new where "fst (sheets_retry execute call rest (w @ [call, Sleep (2 ^ attempt)])) =
      (w @ [call, Sleep (2 ^ attempt)]) @ new"
    using Cons.IH by blast
  then show ?case
    by (cases "execute attempt") auto
qed

lemma get_sheets_service_extends: "\<exists>new. fst (get_sheets_service out w) = w @ new"
  by (cases out) (simp_all add: get_sheets_service_def)

lemma clear_row_advances:
  assumes "0 \<le> current_row_index s" "current_row_index s < int (length (rows s))"
  shows "\<exists>new. clear_row e (w, s) =
           Inr (w @ new, s\<lparr>current_row_index := current_row_index s + 1, caption := None,
                           post_id := None, facebook_post_id := None, error := None\<rparr>)"
proof -
  obtain w1 res1 where svc: "get_sheets_service (clear_service e (current_row_index s)) w = (w1, res1)"
    by (cases "get_sheets_service (clear_service e (current_row_index s)) w")
  obtain n1 where w1: "w1 = w @ n1"
    using get_sheets_service_extends [of "clear_service e (current_row_index s)" w] svc by auto
  obtain w2 res2 where loop: "sheets_retry (sheets_clear e (current_row_index s))
      (SheetsClear (row_number (rows s ! nat (current_row_index s)))) [0..<max_retries] w1 = (w2, res2)"
    by (cases "sheets_retry (sheets_clear e (current_row_index s))
      (SheetsClear (row_number (rows s ! nat (current_row_index s)))) [0..<max_retries] w1")
  obtain n2 where w2: "w2 = w1 @ n2"
    using sheets_retry_extends [of "sheets_clear e (current_row_index s)"
        "SheetsClear (row_number (rows s ! nat (current_row_index s)))" "[0..<max_retries]" w1] loop
    by auto
  show ?thesis
    unfolding clear_row_in_bounds [OF assms] svc
    using loop unfolding w2 w1
    by (cases res1; cases res2) auto
qed

text \<open>
  C3. When \<open>clear_row\<close> is entered with the index in bounds, whatever the outside
  world answers to the clear call (success, a failure that is retried, a failure that is
  not, a Sheets client that cannot be built), the node returns with the index one higher,
  the caption, the Instagram post id and the Facebook post id \<open>None\<close>, and the error
  \<open>None\<close>; the events only grow. The edge behind it leads to \<open>generate_caption\<close>
  when a row is left and to the end otherwise: a failed clear does not block the next row.
\<close>

theorem clear_row_always_moves_to_next_row:
  assumes "0 \<le> current_row_index s" and "current_row_index s < int (length (rows s))"
  shows "\<exists>new. clear_row e (w, s) =
           Inr (w @ new, s\<lparr>current_row_index := current_row_index s + 1, caption := None,
                           post_id := None, facebook_post_id := None, error := None\<rparr>)
         \<and> next_node ClearRow
               (s\<lparr>current_row_index := current_row_index s + 1, caption := None,
                  post_id := None, facebook_post_id := None, error := None\<rparr>) =
             (if current_row_index s + 1 < int (length (rows s))
              then Some GenerateCaption else None)"
  using clear_row_advances [OF assms, of e w]
  by (auto simp: decide_next_step_def)

theorem clear_row_always_moves_to_next_row_witness:
  "clear_row clear_denied_env ([], one_row_state) =
     Inr ([SheetsClear 2, LogError ''Error clearing row: forbidden''],
          one_row_state\<lparr>current_row_index := 1, caption := None, post_id := None,
                          facebook_post_id := None, error := None\<rparr>)
   \<and> next_node ClearRow
         (one_row_state\<lparr>current_row_index := 1, caption := None, post_id := None,
                          facebook_post_id := None, error := None\<rparr>) = None"
proof -
  have bounds: "0 \<le> current_row_index one_row_state"
    "current_row_index one_row_state < int (length (rows one_row_state))"
    by (simp_all add: one_row_state_def)
  have "clear_row clear_denied_env ([], one_row_state) =
     Inr ([SheetsClear 2, LogError ''Error clearing row: forbidden''],
          one_row_state\<lparr>current_row_index := 1, caption := None, post_id := None,
                          facebook_post_id := None, error := None\<rparr>)"
    unfolding clear_row_in_bounds [OF bounds]
    by (simp add: clear_denied_env_def calm_env_def get_sheets_service_def range_max_retries
        one_row_state_def)
  then show ?thesis
    using clear_row_always_moves_to_next_row [OF bounds, of clear_denied_env "[]"]
    by (simp add: one_row_state_def)
qed

lemma no_more_rows_truthy: "truthy (Some no_more_rows)"
  by (simp add: truthy_def no_more_rows_def)

text \<open>
  C7, as the code has it. A step entered with the index at or beyond the number of rows
  (\<open>clear_row\<close> always; \<open>generate_caption\<close>, \<open>create_instagram_post\<close> and
  \<open>create_facebook_post\<close> when no error is set at entry) sets the error to
  \<open>No more rows to process\<close>, changes no other field and makes no call, and the run
  ends there: from \<open>generate_caption\<close> the Instagram node is still visited and skips,
  no other node runs. The run is stated with at least three steps left to the graph
  library, which are enough for the two nodes and the end.
\<close>

theorem step_without_row_sets_no_more_rows:
  assumes "int (length (rows s)) \<le> current_row_index s"
    and "n \<noteq> FilterRows"
    and "n = ClearRow \<or> \<not> truthy (error s)"
  shows "run_node e n (w, s) = Inr (w, s\<lparr>error := Some ''No more rows to process''\<rparr>)
         \<and> run_from e (Suc (Suc (Suc k))) n (w, s) =
             (if n = GenerateCaption
              then [(GenerateCaption, (w, s\<lparr>error := Some ''No more rows to process''\<rparr>)),
                    (CreateInstagramPost, (w, s\<lparr>error := Some ''No more rows to process''\<rparr>))]
              else [(n, (w, s\<lparr>error := Some ''No more rows to process''\<rparr>))],
              Ended)"
proof -
  let ?s = "s\<lparr>error := Some no_more_rows\<rparr>"
  have t: "truthy (error ?s)"
    by (simp add: no_more_rows_truthy)
  have node: "run_node e n (w, s) = Inr (w, ?s)"
    using assms
    by (cases n) (auto simp: generate_caption_def create_instagram_post_def
        create_facebook_post_def clear_row_def)
  have skip: "create_instagram_post e (w, ?s) = (w, ?s)"
    using t by (simp add: create_instagram_post_def)
  have stop: "n \<noteq> GenerateCaption \<Longrightarrow> next_node n ?s = None"
    using assms t
    by (cases n) (simp_all add: decide_after_instagram_def decide_after_facebook_def
        decide_next_step_def)
  have "run_from e (Suc (Suc (Suc k))) n (w, s) =
      (if n = GenerateCaption
       then [(GenerateCaption, (w, ?s)), (CreateInstagramPost, (w, ?s))]
       else [(n, (w, ?s))], Ended)"
  proof (cases "n = GenerateCaption")
    case True
    then show ?thesis
      using node skip t by (simp add: decide_after_instagram_def)
  next
    case False
    then show ?thesis
      using node stop by simp
  qed
  then show ?thesis
    using node by (simp add: no_more_rows_def)
qed

theorem step_without_row_sets_no_more_rows_witness:
  "run_node calm_env GenerateCaption ([], initial_state) =
     Inr ([], initial_state\<lparr>error := Some ''No more rows to process''\<rparr>)
   \<and> run_from calm_env (Suc (Suc (Suc 0))) GenerateCaption ([], initial_state) =
       ([(GenerateCaption, ([], initial_state\<lparr>error := Some ''No more rows to process''\<rparr>)),
         (CreateInstagramPost, ([], initial_state\<lparr>error := Some ''No more rows to process''\<rparr>))],
        Ended)"
proof -
  have none_left: "int (length (rows initial_state)) \<le> current_row_index initial_state"
    by (simp add: initial_state_def)
  have guarded: "GenerateCaption = ClearRow \<or> \<not> truthy (error initial_state)"
    by (simp add: initial_state_def truthy_def)
  show ?thesis
    using step_without_row_sets_no_more_rows [OF none_left _ guarded, of calm_env "[]" 0]
    by (simp del: run_from.simps run_node.simps)
qed

text \<open>
  C7 as stated fails when an error is already set: after a failed fetch the run enters
  \<open>generate_caption\<close> with no rows and index 0, and the step keeps the error of the
  fetch instead of \<open>No more rows to process\<close>.
\<close>

theorem error_at_entry_wins_over_no_more_rows:
  "filter_rows fetch_failed_env ([], initial_state) =
     ([LogError ''Failed to initialize Google Sheets API client: no credentials'',
       LogError ''Error filtering rows: no credentials''],
      initial_state\<lparr>error := Some ''Error filtering rows: no credentials''\<rparr>)
   \<and> int (length (rows (initial_state\<lparr>error := Some ''Error filtering rows: no credentials''\<rparr>)))
       \<le> current_row_index (initial_state\<lparr>error := Some ''Error filtering rows: no credentials''\<rparr>)
   \<and> error (snd (generate_caption fetch_failed_env
                    (filter_rows fetch_failed_env ([], initial_state)))) =
       Some ''Error filtering rows: no credentials''
   \<and> error (snd (generate_caption fetch_failed_env
                    (filter_rows fetch_failed_env ([], initial_state)))) \<noteq>
       Some ''No more rows to process''"
  by (simp add: filter_rows_def fetch_failed_env_def calm_env_def get_sheets_service_def
      initial_state_def generate_caption_def truthy_def)

lemma step_with_error_is_skipped:
  assumes "truthy (error s)"
    and "n = GenerateCaption \<or> n = CreateInstagramPost \<or> n = CreateFacebookPost"
  shows "run_node e n (w, s) = Inr (w, s)"
  using assms
  by (auto simp: generate_caption_def create_instagram_post_def create_facebook_post_def)

section \<open>Properties of the run\<close>

lemma clears_append: "clears (xs @ ys) = clears xs @ clears ys"
  by (induction xs rule: clears.induct) simp_all

lemma publish_loop_clears: "clears (fst (publish_loop publish xs prev w)) = clears w"
proof (induction xs arbitrary: prev w)
  case Nil
  show ?case by simp
next
  case (Cons attempt rest)
  show ?case
    by (auto simp: Cons.IH clears_append
        split: http_outcome.splits json_body.splits option.splits sum.splits)
qed

lemma instagram_try_clears: "clears (fst (instagram_try e w s)) = clears w"
  by (auto simp: instagram_try_def publish_loop_clears clears_append
      split: option.splits http_outcome.splits json_body.splits)

lemma facebook_try_clears: "clears (fst (facebook_try e w s)) = clears w"
  by (auto simp: facebook_try_def clears_append
      split: option.splits http_outcome.splits json_body.splits)

lemma create_instagram_post_frame:
  "create_instagram_post e (w, s) = (w', s') \<Longrightarrow>
   rows s' = rows s \<and> current_row_index s' = current_row_index s \<and> clears w' = clears w"
  using instagram_try_clears [of e w s]
  by (auto simp: create_instagram_post_def record_error_def clears_append
      split: if_splits prod.splits sum.splits)

lemma create_facebook_post_frame:
  "create_facebook_post e (w, s) = (w', s') \<Longrightarrow>
   rows s' = rows s \<and> current_row_index s' = current_row_index s \<and> clears w' = clears w"
  using facebook_try_clears [of e w s]
  by (auto simp: create_facebook_post_def record_error_def clears_append
      split: if_splits prod.splits sum.splits)

lemma generate_caption_frame:
  "generate_caption e (w, s) = (w', s') \<Longrightarrow>
   rows s' = rows s \<and> current_row_index s' = current_row_index s \<and> clears w' = clears w"
  by (auto simp: generate_caption_def record_error_def clears_append
      split: if_splits option.splits llm_outcome.splits)

lemma create_facebook_post_success:
  "create_facebook_post e (w, s) = (w', s') \<Longrightarrow> \<not> truthy (error s') \<Longrightarrow>
   current_row_index s < int (length (rows s))"
  by (auto simp: create_facebook_post_def record_error_def no_more_rows_def truthy_def
      split: if_splits prod.splits sum.splits)


lemma filter_rows_index:
  "current_row_index s = 0 \<Longrightarrow> current_row_index (snd (filter_rows e (w, s))) = 0"
  by (auto simp: filter_rows_def split: prod.splits sum.splits)

lemma next_node_not_filter_rows: "next_node n s \<noteq> Some FilterRows"
  by (cases n) (simp_all add: decide_after_instagram_def decide_after_facebook_def
      decide_next_step_def)

lemma next_node_clear_row:
  "next_node n s = Some ClearRow \<Longrightarrow> n = CreateFacebookPost \<and> \<not> truthy (error s)"
  by (cases n) (simp_all add: decide_after_instagram_def decide_after_facebook_def
      decide_next_step_def split: if_splits)

lemma run_node_index:
  assumes "n \<noteq> FilterRows" and "0 \<le> current_row_index s"
    and "n = ClearRow \<Longrightarrow> current_row_index s < int (length (rows s))"
  shows "\<exists>w' s'. run_node e n (w, s) = Inr (w', s') \<and> rows s' = rows s
           \<and> current_row_index s' = (if n = ClearRow then current_row_index s + 1
                                       else current_row_index s)
           \<and> (next_node n s' = Some ClearRow
                \<longrightarrow> current_row_index s' < int (length (rows s')))"
proof (cases n)
  case FilterRows
  with assms show ?thesis by simp
next
  case GenerateCaption
  obtain w' s' where r: "generate_caption e (w, s) = (w', s')"
    by (cases "generate_caption e (w, s)")
  with GenerateCaption generate_caption_frame [OF r] show ?thesis by simp
next
  case CreateInstagramPost
  obtain w' s' where r: "create_instagram_post e (w, s) = (w', s')"
    by (cases "create_instagram_post e (w, s)")
  with CreateInstagramPost create_instagram_post_frame [OF r] show ?thesis
    by (simp add: decide_after_instagram_def)
next
  case CreateFacebookPost
  obtain w' s' where r: "create_facebook_post e (w, s) = (w', s')"
    by (cases "create_facebook_post e (w, s)")
  with CreateFacebookPost create_facebook_post_frame [OF r] create_facebook_post_success [OF r]
  show ?thesis
    by (auto simp: decide_after_facebook_def split: if_splits)
next
  case ClearRow
  with assms clear_row_advances [of s e w] show ?thesis
    by (auto simp: decide_next_step_def)
qed

lemma run_from_index_steps:
  assumes "run_from e k n (w, s) = (xs, st)"
    and "n \<noteq> FilterRows" and "0 \<le> current_row_index s"
    and "n = ClearRow \<Longrightarrow> current_row_index s < int (length (rows s))"
  shows "index_steps (current_row_index s) xs \<and> st \<noteq> Crashed c"
  using assms
proof (induction k arbitrary: n w s xs st)
  case 0
  then show ?case by auto
next
  case (Suc k)
  obtain w' s' where node: "run_node e n (w, s) = Inr (w', s')"
    and idx: "current_row_index s' = (if n = ClearRow then current_row_index s + 1
                                       else current_row_index s)"
    and clr: "next_node n s' = Some ClearRow \<Longrightarrow> current_row_index s' < int (length (rows s'))"
    using run_node_index [OF Suc.prems(2-4), of e w] by blast
  show ?case
  proof (cases "next_node n s'")
    case None
    with Suc.prems(1) node idx show ?thesis by (auto split: if_splits)
  next
    case (Some n')
    obtain ys st' where rest: "run_from e k n' (w', s') = (ys, st')"
      by (cases "run_from e k n' (w', s')")
    have "n' \<noteq> FilterRows"
      using Some next_node_not_filter_rows [of n s'] by auto
    moreover have "0 \<le> current_row_index s'"
      using idx Suc.prems(3) by (simp split: if_splits)
    moreover have "n' = ClearRow \<Longrightarrow> current_row_index s' < int (length (rows s'))"
      using clr Some by simp
    ultimately have "index_steps (current_row_index s') ys \<and> st' \<noteq> Crashed c"
      using Suc.IH [OF rest] by blast
    with Suc.prems(1) node Some rest idx show ?thesis by auto
  qed
qed


lemma run_from_stops:
  assumes "run_from e k n0 cfg0 = (xs, st)" and "i < length xs"
    and "next_node (fst (xs ! i)) (snd (snd (xs ! i))) = None"
  shows "Suc i = length xs \<and> st = (if length xs < k then Ended else OutOfSteps)"
  using assms
proof (induction k arbitrary: n0 cfg0 xs st i)
  case 0
  then show ?case by simp
next
  case (Suc k)
  show ?case
  proof (cases "run_node e n0 cfg0")
    case (Inl c)
    with Suc.prems show ?thesis by simp
  next
    case (Inr cfg')
    show ?thesis
    proof (cases "next_node n0 (snd cfg')")
      case None
      with Suc.prems Inr show ?thesis by auto
    next
      case (Some n')
      obtain ys st' where rest: "run_from e k n' cfg' = (ys, st')"
        by (cases "run_from e k n' cfg'")
      have xs: "xs = (n0, cfg') # ys" and st: "st = st'"
        using Suc.prems(1) Inr Some rest by auto
      show ?thesis
      proof (cases i)
        case 0
        with Suc.prems(3) xs Some show ?thesis by simp
      next
        case (Suc j)
        with Suc.prems(2,3) xs have "j < length ys"
          and "next_node (fst (ys ! j)) (snd (snd (ys ! j))) = None"
          by simp_all
        from Suc.IH [OF rest this] xs st Suc show ?thesis by simp
      qed
    qed
  qed
qed

lemma record_error_not_empty: "error (snd (record_error (c # prefix @ msg) w s)) \<noteq> Some []"
  by (simp add: record_error_def)

lemma run_node_error_not_empty:
  assumes "run_node e n (w, s) = Inr (w', s')" and "error s \<noteq> Some []"
  shows "error s' \<noteq> Some []"
proof (cases n)
  case FilterRows
  with assms show ?thesis
    by (auto simp: filter_rows_def split: prod.splits sum.splits)
next
  case GenerateCaption
  with assms show ?thesis
    by (auto simp: generate_caption_def record_error_def no_more_rows_def
        split: if_splits option.splits llm_outcome.splits)
next
  case CreateInstagramPost
  with assms show ?thesis
    by (auto simp: create_instagram_post_def record_error_def no_more_rows_def
        split: if_splits prod.splits sum.splits)
next
  case CreateFacebookPost
  with assms show ?thesis
    by (auto simp: create_facebook_post_def record_error_def no_more_rows_def
        split: if_splits prod.splits sum.splits)
next
  case ClearRow
  with assms show ?thesis
    by (auto simp: clear_row_def no_more_rows_def split: if_splits prod.splits)
qed

lemma truthy_unless_empty: "v \<noteq> None \<Longrightarrow> v \<noteq> Some [] \<Longrightarrow> truthy v"
  by (cases v) (simp_all add: truthy_def)

lemma run_from_skips:
  assumes "run_from e k n cfg = (xs, st)" and "n \<noteq> FilterRows"
    and "error (snd cfg) \<noteq> Some []" and "n = ClearRow \<Longrightarrow> error (snd cfg) = None"
    and "j < length xs" and "error (snd ((cfg # map snd xs) ! j)) \<noteq> None"
  shows "snd (xs ! j) = (cfg # map snd xs) ! j"
  using assms
proof (induction k arbitrary: n cfg xs st j)
  case 0
  then show ?case by simp
next
  case (Suc k)
  obtain w s where cfg: "cfg = (w, s)"
    by (cases cfg)
  show ?case
  proof (cases "run_node e n cfg")
    case (Inl c)
    with Suc.prems(1,5) show ?thesis by simp
  next
    case (Inr cfg')
    obtain w' s' where cfg': "cfg' = (w', s')"
      by (cases cfg')
    have kept: "error s' \<noteq> Some []"
      using run_node_error_not_empty [of e n w s w' s'] Inr Suc.prems(3) cfg cfg' by simp
    show ?thesis
    proof (cases j)
      case 0
      have "error s \<noteq> None"
        using Suc.prems(6) 0 cfg by simp
      then have "truthy (error s)" and "n \<noteq> ClearRow"
        using Suc.prems(3,4) cfg by (auto simp: truthy_unless_empty)
      then have "run_node e n (w, s) = Inr (w, s)"
        using Suc.prems(2)
        by (cases n) (simp_all add: generate_caption_def create_instagram_post_def
            create_facebook_post_def)
      then have "cfg' = cfg"
        using Inr cfg by simp
      moreover have "xs ! 0 = (n, cfg')"
        using Suc.prems(1) Inr by (auto split: option.splits prod.splits)
      ultimately show ?thesis
        using 0 by simp
    next
      case (Suc i)
      show ?thesis
      proof (cases "next_node n (snd cfg')")
        case None
        with Suc.prems(1,5) Inr Suc show ?thesis by auto
      next
        case (Some n')
        obtain ys st' where rest: "run_from e k n' cfg' = (ys, st')"
          by (cases "run_from e k n' cfg'")
        have xs: "xs = (n, cfg') # ys"
          using Suc.prems(1) Inr Some rest by simp
        have "n' \<noteq> FilterRows"
          using Some next_node_not_filter_rows [of n "snd cfg'"] by auto
        moreover have "error (snd cfg') \<noteq> Some []"
          using kept cfg' by simp
        moreover have "n' = ClearRow \<Longrightarrow> error (snd cfg') = None"
          using next_node_clear_row [of n "snd cfg'"] Some kept cfg'
          by (auto simp: truthy_def split: option.splits)
        moreover have "i < length ys"
          using Suc.prems(5) xs Suc by simp
        moreover have "error (snd ((cfg' # map snd ys) ! i)) \<noteq> None"
          using Suc.prems(6) xs Suc by simp
        ultimately have "snd (ys ! i) = (cfg' # map snd ys) ! i"
          using Suc.IH [OF rest] by blast
        then show ?thesis
          using xs Suc by simp
      qed
    qed
  qed
qed

lemma calm: "fetch_service calm_env = ServiceReady"
  "sheets_get calm_env = (\<lambda>attempt. Executed (Some example_table))"
  "gemini calm_env = (\<lambda>i. LlmContent '' a caption '')"
  "ig_media calm_env = (\<lambda>i. Responds (id_response 200 ''17''))"
  "ig_publish calm_env = (\<lambda>i attempt. Responds (id_response 200 ''999''))"
  "fb_photos calm_env = (\<lambda>i. Responds (id_response 200 ''55''))"
  "clear_service calm_env = (\<lambda>i. ServiceReady)"
  "sheets_clear calm_env = (\<lambda>i attempt. Executed ())"
  by (simp_all add: calm_env_def)

lemma strip_caption: "strip '' a caption '' = ''a caption''"
  by (simp add: strip_def is_space_def)

lemmas run_defs = run_workflow_def recursion_limit_def numeral_eq_Suc initial_state_def
     filter_rows_def get_sheets_service_def range_max_retries example_rows
     generate_caption_def truthy_def py_index_def strip_caption record_error_def
     create_instagram_post_def instagram_try_def id_response_def empty_response_def
     raises_for_status_def
     create_facebook_post_def facebook_try_def clear_row_def clear_try_def
     decide_after_instagram_def decide_after_facebook_def decide_next_step_def no_more_rows_def

lemma calm_run:
  "map (\<lambda>(n, w, s). (n, current_row_index s)) (fst (run_workflow calm_env)) =
     [(FilterRows, 0), (GenerateCaption, 0), (CreateInstagramPost, 0), (CreateFacebookPost, 0),
      (ClearRow, 1), (GenerateCaption, 1), (CreateInstagramPost, 1), (CreateFacebookPost, 1),
      (ClearRow, 2)]
   \<and> snd (run_workflow calm_env) = Ended
   \<and> fst (snd (last (fst (run_workflow calm_env)))) =
       [SheetsGet, Gemini, IgMedia, IgPublish, FbPhotos, SheetsClear 2,
        Gemini, IgMedia, IgPublish, FbPhotos, SheetsClear 4]"
  by (simp add: run_defs calm)

lemma media_refused: "fetch_service media_refused_env = ServiceReady"
  "sheets_get media_refused_env = (\<lambda>attempt. Executed (Some example_table))"
  "gemini media_refused_env = (\<lambda>i. LlmContent '' a caption '')"
  "ig_media media_refused_env = (\<lambda>i. Responds (empty_response 400))"
  by (simp_all add: media_refused_env_def calm_env_def)

lemma photo_refused: "fetch_service photo_refused_env = ServiceReady"
  "sheets_get photo_refused_env = (\<lambda>attempt. Executed (Some example_table))"
  "gemini photo_refused_env = (\<lambda>i. LlmContent '' a caption '')"
  "ig_media photo_refused_env = (\<lambda>i. Responds (id_response 200 ''17''))"
  "ig_publish photo_refused_env = (\<lambda>i attempt. Responds (id_response 200 ''999''))"
  "fb_photos photo_refused_env = (\<lambda>i. Responds (empty_response 500))"
  by (simp_all add: photo_refused_env_def calm_env_def)

lemma media_refused_run:
  "run_workflow media_refused_env =
     ([(FilterRows, [SheetsGet],
          initial_state\<lparr>rows := filtered_rows example_table\<rparr>),
       (GenerateCaption, [SheetsGet, Gemini],
          initial_state\<lparr>rows := filtered_rows example_table, caption := Some ''a caption''\<rparr>),
       (CreateInstagramPost,
          [SheetsGet, Gemini, IgMedia, LogError ''Error creating Instagram post: HTTP error''],
          initial_state\<lparr>rows := filtered_rows example_table, caption := Some ''a caption'',
                          error := Some ''Error creating Instagram post: HTTP error''\<rparr>)],
      Ended)"
  by (simp add: run_defs media_refused)

lemma photo_refused_run:
  "run_workflow photo_refused_env =
     ([(FilterRows, [SheetsGet],
          initial_state\<lparr>rows := filtered_rows example_table\<rparr>),
       (GenerateCaption, [SheetsGet, Gemini],
          initial_state\<lparr>rows := filtered_rows example_table, caption := Some ''a caption''\<rparr>),
       (CreateInstagramPost, [SheetsGet, Gemini, IgMedia, IgPublish],
          initial_state\<lparr>rows := filtered_rows example_table, caption := Some ''a caption'',
                          post_id := Some ''999''\<rparr>),
       (CreateFacebookPost,
          [SheetsGet, Gemini, IgMedia, IgPublish, FbPhotos,
           LogError ''Error creating Facebook post: HTTP error. Response: {}''],
          initial_state\<lparr>rows := filtered_rows example_table, caption := Some ''a caption'',
                          post_id := Some ''999'',
                          error := Some ''Error creating Facebook post: HTTP error. Response: {}''\<rparr>)],
      Ended)"
  by (simp add: run_defs photo_refused)


text \<open>
  C9, as the code has it. In every run of the workflow, cut off after any number of
  nodes, the index is 0 after \<open>filter_rows\<close>, stays what it was across every other
  node but \<open>clear_row\<close>, and is exactly one more after each \<open>clear_row\<close>: it never
  decreases and never jumps. No node raises out of such a run. The index advances once
  per row that reaches its clear step; a row abandoned at a publisher leaves it where it
  was.
\<close>

theorem index_advances_by_one_at_clear_row_only:
  assumes "run_from e k FilterRows ([], initial_state) = (xs, st)"
  shows "index_steps 0 xs \<and> st \<noteq> Crashed c"
proof (cases k)
  case 0
  with assms show ?thesis by auto
next
  case (Suc k')
  obtain w' s' where first: "filter_rows e ([], initial_state) = (w', s')"
    by (cases "filter_rows e ([], initial_state)")
  have zero: "current_row_index s' = 0"
    using filter_rows_index [of initial_state e "[]"] first by (simp add: initial_state_def)
  obtain ys st' where rest: "run_from e k' GenerateCaption (w', s') = (ys, st')"
    by (cases "run_from e k' GenerateCaption (w', s')")
  have "index_steps (current_row_index s') ys \<and> st' \<noteq> Crashed c"
    using run_from_index_steps [OF rest] zero by simp
  moreover have "xs = (FilterRows, (w', s')) # ys" and "st = st'"
    using assms Suc first rest by simp_all
  ultimately show ?thesis
    using zero by simp
qed

theorem index_advances_by_one_at_clear_row_only_witness:
  "index_steps 0 (fst (run_workflow calm_env))
   \<and> snd (run_workflow calm_env) \<noteq> Crashed UnboundLocalError
   \<and> map (\<lambda>(n, w, s). (n, current_row_index s)) (fst (run_workflow calm_env)) =
       [(FilterRows, 0), (GenerateCaption, 0), (CreateInstagramPost, 0),
        (CreateFacebookPost, 0), (ClearRow, 1), (GenerateCaption, 1),
        (CreateInstagramPost, 1), (CreateFacebookPost, 1), (ClearRow, 2)]"
proof -
  have run: "run_from calm_env recursion_limit FilterRows ([], initial_state) =
      (fst (run_workflow calm_env), snd (run_workflow calm_env))"
    by (simp add: run_workflow_def)
  show ?thesis
    using index_advances_by_one_at_clear_row_only [OF run, of UnboundLocalError] calm_run
    by blast
qed

text \<open>
  C9 as stated fails for an abandoned row: when the media container of the first of two
  rows is refused, the run ends behind \<open>create_instagram_post\<close> with the index still 0.
\<close>

theorem abandoned_row_does_not_advance_index:
  "snd (run_workflow media_refused_env) = Ended
   \<and> map (\<lambda>(n, w, s). (n, current_row_index s, error s)) (fst (run_workflow media_refused_env)) =
       [(FilterRows, 0, None), (GenerateCaption, 0, None),
        (CreateInstagramPost, 0, Some ''Error creating Instagram post: HTTP error'')]
   \<and> length (rows (snd (snd (last (fst (run_workflow media_refused_env)))))) = 2"
  by (simp add: media_refused_run example_rows initial_state_def)

text \<open>
  C1, as the code has it. When \<open>create_instagram_post\<close> or \<open>create_facebook_post\<close>
  leaves an error, the run stops with that node: the clear step of the row does not run
  and no clear call is made, the rows and the index are what they were, and no later row
  is processed. In any run, from any node and configuration, such a node is the last one
  that ran; the run has ended there, or, when that node took the last step that the graph
  library had, the library has raised its recursion error instead.
\<close>

theorem failed_publish_ends_the_run:
  "(truthy (error (snd (create_instagram_post e (w, s))))
    \<longrightarrow> run_from e (Suc (Suc k)) CreateInstagramPost (w, s) =
          ([(CreateInstagramPost, create_instagram_post e (w, s))], Ended)
        \<and> rows (snd (create_instagram_post e (w, s))) = rows s
        \<and> current_row_index (snd (create_instagram_post e (w, s))) = current_row_index s
        \<and> clears (fst (create_instagram_post e (w, s))) = clears w)
   \<and> (truthy (error (snd (create_facebook_post e (w, s))))
    \<longrightarrow> run_from e (Suc (Suc k)) CreateFacebookPost (w, s) =
          ([(CreateFacebookPost, create_facebook_post e (w, s))], Ended)
        \<and> rows (snd (create_facebook_post e (w, s))) = rows s
        \<and> current_row_index (snd (create_facebook_post e (w, s))) = current_row_index s
        \<and> clears (fst (create_facebook_post e (w, s))) = clears w)
   \<and> (run_from e fuel start cfg = (xs, st) \<and> i < length xs
        \<and> (fst (xs ! i) = CreateInstagramPost \<or> fst (xs ! i) = CreateFacebookPost)
        \<and> truthy (error (snd (snd (xs ! i))))
    \<longrightarrow> Suc i = length xs \<and> st = (if length xs < fuel then Ended else OutOfSteps))"
proof -
  obtain wi si where ri: "create_instagram_post e (w, s) = (wi, si)"
    by (cases "create_instagram_post e (w, s)")
  have instagram: "truthy (error (snd (create_instagram_post e (w, s))))
    \<longrightarrow> run_from e (Suc (Suc k)) CreateInstagramPost (w, s) =
          ([(CreateInstagramPost, create_instagram_post e (w, s))], Ended)
        \<and> rows (snd (create_instagram_post e (w, s))) = rows s
        \<and> current_row_index (snd (create_instagram_post e (w, s))) = current_row_index s
        \<and> clears (fst (create_instagram_post e (w, s))) = clears w"
    using create_instagram_post_frame [OF ri] ri
    by (simp add: decide_after_instagram_def)
  obtain wf sf where rf: "create_facebook_post e (w, s) = (wf, sf)"
    by (cases "create_facebook_post e (w, s)")
  have facebook: "truthy (error (snd (create_facebook_post e (w, s))))
    \<longrightarrow> run_from e (Suc (Suc k)) CreateFacebookPost (w, s) =
          ([(CreateFacebookPost, create_facebook_post e (w, s))], Ended)
        \<and> rows (snd (create_facebook_post e (w, s))) = rows s
        \<and> current_row_index (snd (create_facebook_post e (w, s))) = current_row_index s
        \<and> clears (fst (create_facebook_post e (w, s))) = clears w"
    using create_facebook_post_frame [OF rf] rf
    by (simp add: decide_after_facebook_def)
  have "Suc i = length xs \<and> st = (if length xs < fuel then Ended else OutOfSteps)"
    if a: "run_from e fuel start cfg = (xs, st) \<and> i < length xs
        \<and> (fst (xs ! i) = CreateInstagramPost \<or> fst (xs ! i) = CreateFacebookPost)
        \<and> truthy (error (snd (snd (xs ! i))))"
  proof -
    have "next_node (fst (xs ! i)) (snd (snd (xs ! i))) = None"
      using a by (auto simp: decide_after_instagram_def decide_after_facebook_def)
    with a show ?thesis
      using run_from_stops [of e fuel start cfg xs st i] by blast
  qed
  with instagram facebook show ?thesis
    by blast
qed

theorem failed_publish_ends_the_run_witness:
  "run_from media_refused_env (Suc (Suc 0)) CreateInstagramPost ([], one_row_state) =
     ([(CreateInstagramPost, [IgMedia, LogError ''Error creating Instagram post: HTTP error''],
        one_row_state\<lparr>error := Some ''Error creating Instagram post: HTTP error''\<rparr>)], Ended)
   \<and> run_from photo_refused_env (Suc (Suc 0)) CreateFacebookPost ([], one_row_state) =
       ([(CreateFacebookPost,
          [FbPhotos, LogError ''Error creating Facebook post: HTTP error. Response: {}''],
          one_row_state\<lparr>error :=
            Some ''Error creating Facebook post: HTTP error. Response: {}''\<rparr>)], Ended)
   \<and> Suc 3 = length (fst (run_workflow photo_refused_env))
   \<and> snd (run_workflow photo_refused_env) = Ended"
proof -
  have ig: "create_instagram_post media_refused_env ([], one_row_state) =
      ([IgMedia, LogError ''Error creating Instagram post: HTTP error''],
       one_row_state\<lparr>error := Some ''Error creating Instagram post: HTTP error''\<rparr>)"
    by (simp add: create_instagram_post_def instagram_try_def one_row_state_def truthy_def
        py_index_def media_refused empty_response_def raises_for_status_def record_error_def)
  have fb: "create_facebook_post photo_refused_env ([], one_row_state) =
      ([FbPhotos, LogError ''Error creating Facebook post: HTTP error. Response: {}''],
       one_row_state\<lparr>error := Some ''Error creating Facebook post: HTTP error. Response: {}''\<rparr>)"
    by (simp add: create_facebook_post_def facebook_try_def one_row_state_def truthy_def
        py_index_def photo_refused empty_response_def raises_for_status_def record_error_def)
  have run: "run_from photo_refused_env recursion_limit FilterRows ([], initial_state) =
      (fst (run_workflow photo_refused_env), snd (run_workflow photo_refused_env))"
    by (simp add: run_workflow_def)
  have last_node: "3 < length (fst (run_workflow photo_refused_env))
      \<and> fst (fst (run_workflow photo_refused_env) ! 3) = CreateFacebookPost
      \<and> truthy (error (snd (snd (fst (run_workflow photo_refused_env) ! 3))))"
    by (simp add: photo_refused_run truthy_def)
  have steps_left: "length (fst (run_workflow photo_refused_env)) < recursion_limit"
    by (simp add: photo_refused_run recursion_limit_def)
  have "truthy (error (snd (create_instagram_post media_refused_env ([], one_row_state))))"
    and "truthy (error (snd (create_facebook_post photo_refused_env ([], one_row_state))))"
    by (simp_all add: ig fb truthy_def)
  then show ?thesis
    using failed_publish_ends_the_run [where e = media_refused_env and w = "[]"
        and s = one_row_state and k = 0]
      failed_publish_ends_the_run [where e = photo_refused_env and w = "[]"
        and s = one_row_state and k = 0 and fuel = recursion_limit and start = FilterRows
        and cfg = "([], initial_state)" and xs = "fst (run_workflow photo_refused_env)"
        and st = "snd (run_workflow photo_refused_env)" and i = 3]
      run last_node steps_left
    unfolding ig fb
    by presburger
qed

text \<open>
  C1 as stated fails in its last part: when the photo post of the first of two rows is
  refused, the run ends behind \<open>create_facebook_post\<close>; the second row (sheet row 4)
  is never processed, the language model was called once.
\<close>

theorem rows_after_a_failed_row_are_not_processed:
  "snd (run_workflow photo_refused_env) = Ended
   \<and> map fst (fst (run_workflow photo_refused_env)) =
       [FilterRows, GenerateCaption, CreateInstagramPost, CreateFacebookPost]
   \<and> fst (snd (last (fst (run_workflow photo_refused_env)))) =
       [SheetsGet, Gemini, IgMedia, IgPublish, FbPhotos,
        LogError ''Error creating Facebook post: HTTP error. Response: {}'']
   \<and> map row_number (rows (snd (snd (last (fst (run_workflow photo_refused_env)))))) = [2, 4]
   \<and> current_row_index (snd (snd (last (fst (run_workflow photo_refused_env))))) = 0"
  by (simp add: photo_refused_run example_rows initial_state_def)

lemma fetch_failed: "fetch_service fetch_failed_env = ServiceRaises ''no credentials''"
  by (simp add: fetch_failed_env_def calm_env_def)

lemma fetch_failed_run:
  "run_workflow fetch_failed_env =
     ([(FilterRows,
        [LogError ''Failed to initialize Google Sheets API client: no credentials'',
         LogError ''Error filtering rows: no credentials''],
        initial_state\<lparr>error := Some ''Error filtering rows: no credentials''\<rparr>),
       (GenerateCaption,
        [LogError ''Failed to initialize Google Sheets API client: no credentials'',
         LogError ''Error filtering rows: no credentials''],
        initial_state\<lparr>error := Some ''Error filtering rows: no credentials''\<rparr>),
       (CreateInstagramPost,
        [LogError ''Failed to initialize Google Sheets API client: no credentials'',
         LogError ''Error filtering rows: no credentials''],
        initial_state\<lparr>error := Some ''Error filtering rows: no credentials''\<rparr>)],
      Ended)"
  by (simp add: run_defs fetch_failed)

text \<open>
  C8. In every run of the workflow, cut off after any number of steps, a node that is
  entered with an error (a value other than \<open>None\<close>) returns the configuration it was
  given: no field of the state is changed, the error keeps its value, and no call is
  made, nothing is logged as an error and nothing sleeps. The configuration a node is
  entered with is the one the node before it returned, for the first node the initial
  one. In a run the error is never the empty string, and \<open>clear_row\<close>, which has no
  test of the error, is only entered without one.
\<close>

theorem node_entered_with_error_changes_nothing:
  assumes "run_from e k FilterRows ([], initial_state) = (xs, st)"
    and "j < length xs"
    and "error (snd ((([], initial_state) # map snd xs) ! j)) \<noteq> None"
  shows "snd (xs ! j) = (([], initial_state) # map snd xs) ! j"
proof (cases k)
  case 0
  with assms show ?thesis by simp
next
  case (Suc k')
  obtain w' s' where first: "filter_rows e ([], initial_state) = (w', s')"
    by (cases "filter_rows e ([], initial_state)")
  obtain ys st' where rest: "run_from e k' GenerateCaption (w', s') = (ys, st')"
    by (cases "run_from e k' GenerateCaption (w', s')")
  have xs: "xs = (FilterRows, (w', s')) # ys"
    using assms(1) Suc first rest by simp
  show ?thesis
  proof (cases j)
    case 0
    with assms(3) show ?thesis by (simp add: initial_state_def)
  next
    case (Suc i)
    have "error (snd (w', s')) \<noteq> Some []"
      using run_node_error_not_empty [of e FilterRows "[]" initial_state w' s'] first
      by (simp add: initial_state_def)
    moreover have "i < length ys"
      using assms(2) xs Suc by simp
    moreover have "error (snd (((w', s') # map snd ys) ! i)) \<noteq> None"
      using assms(3) xs Suc by simp
    ultimately have "snd (ys ! i) = ((w', s') # map snd ys) ! i"
      using run_from_skips [OF rest] by simp
    then show ?thesis
      using xs Suc by simp
  qed
qed

theorem node_entered_with_error_changes_nothing_witness:
  "snd (fst (run_workflow fetch_failed_env) ! 1) =
     ([LogError ''Failed to initialize Google Sheets API client: no credentials'',
       LogError ''Error filtering rows: no credentials''],
      initial_state\<lparr>error := Some ''Error filtering rows: no credentials''\<rparr>)
   \<and> fst (fst (run_workflow fetch_failed_env) ! 1) = GenerateCaption"
proof -
  have run: "run_from fetch_failed_env recursion_limit FilterRows ([], initial_state) =
      (fst (run_workflow fetch_failed_env), snd (run_workflow fetch_failed_env))"
    by (simp add: run_workflow_def)
  have entered: "1 < length (fst (run_workflow fetch_failed_env))"
    and with_error: "error (snd ((([], initial_state)
        # map snd (fst (run_workflow fetch_failed_env))) ! 1)) \<noteq> None"
    by (simp_all add: fetch_failed_run)
  show ?thesis
    using node_entered_with_error_changes_nothing [OF run entered with_error]
    by (simp add: fetch_failed_run)
qed

end
